theory Spec2Isabelle
  imports Complex_Main "HOL-Library.AList" "HOL-Library.Sublist" "HOL-Library.Log_Nat"
begin

section \<open>JavaScript values\<close>

text \<open>
  The dashboard's data layer (\<^verbatim>\<open>services/api.js\<close>, present in two copies: the one under
  \<^verbatim>\<open>FrontEnd/src/services\<close> and a second, longer one) and the upload page
  (\<^verbatim>\<open>handleFile\<close>) are embedded below. A JavaScript number is modelled as the real number
  it denotes. \<^verbatim>\<open>Math.round\<close> rounds to the nearest integer, a tie going up; on the value of
  a double this is exact.
\<close>

definition js_round :: "real \<Rightarrow> real" where
  "js_round x = of_int \<lfloor>x + 1 / 2\<rfloor>"

subsection \<open>Double arithmetic\<close>

text \<open>
  The result of an arithmetic operation on doubles is the exact result rounded to the nearest
  double, a tie going to the even significand (IEEE 754 binary64). \<open>fl\<close> is that rounding:
  53 significant bits, with the fixed spacing \<^verbatim>\<open>2^-1074\<close> of the subnormal numbers below
  \<^verbatim>\<open>2^-1022\<close>. \<open>binade x\<close> is the exponent \<open>e\<close> with \<^verbatim>\<open>2^e <= |x| < 2^(e+1)\<close>, and
  \<open>ulp x\<close> the spacing of the doubles there. The exponent has no upper limit here: a result
  beyond the largest double, which the code turns into \<^verbatim>\<open>Infinity\<close>, is outside the model.

  The functions that compute with products and quotients of their inputs (the simulator, the
  user growth, the mock patient count) round after every operation, in the order in which the
  code evaluates, and a decimal constant of the code is the double nearest to it. In the
  transformer, whose only arithmetic is the rounding of one value to a decimal place, a
  decimal stands for the double nearest to it.
\<close>

definition pow2 :: "int \<Rightarrow> real" where
  "pow2 e = (if 0 \<le> e then 2 ^ nat e else 1 / 2 ^ nat (- e))"

definition binade :: "real \<Rightarrow> int" where
  "binade x =
    (if 1 \<le> \<bar>x\<bar> then bitlen \<lfloor>\<bar>x\<bar>\<rfloor> - 1 else - bitlen (\<lceil>1 / \<bar>x\<bar>\<rceil> - 1))"

definition ulp :: "real \<Rightarrow> real" where
  "ulp x = pow2 (max (- 1022) (binade x) - 52)"

definition round_even :: "real \<Rightarrow> int" where
  "round_even y =
    (let f = \<lfloor>y\<rfloor>; d = y - of_int f
     in if d < 1 / 2 then f else if 1 / 2 < d then f + 1 else if even f then f else f + 1)"

definition fl :: "real \<Rightarrow> real" where
  "fl x = (if x = 0 then 0 else of_int (round_even (x / ulp x)) * ulp x)"


text \<open>The value \<^verbatim>\<open>x || d\<close> of an optional number: the default replaces a missing field and 0.\<close>

definition num_or :: "real option \<Rightarrow> real \<Rightarrow> real" where
  "num_or x d = (case x of None \<Rightarrow> d | Some v \<Rightarrow> if v = 0 then d else v)"

datatype jv = JStr string | JNum real

text \<open>
  An object whose keys are not fixed by the code is an association list in insertion order.
  In an object literal a repeated key keeps its place and takes the later value, which is
  what \<^const>\<open>AList.update\<close> does.
\<close>

type_synonym obj = "(string \<times> jv) list"

datatype js_error = Error string | TypeError string | SyntaxError string

fun err_message :: "js_error \<Rightarrow> string" where
  "err_message (Error m) = m"
| "err_message (TypeError m) = m"
| "err_message (SyntaxError m) = m"

definition show_digit :: "int \<Rightarrow> char" where
  "show_digit d =
    (if d = 0 then CHR ''0'' else if d = 1 then CHR ''1'' else if d = 2 then CHR ''2''
     else if d = 3 then CHR ''3'' else if d = 4 then CHR ''4'' else if d = 5 then CHR ''5''
     else if d = 6 then CHR ''6'' else if d = 7 then CHR ''7'' else if d = 8 then CHR ''8''
     else CHR ''9'')"

text \<open>
  The decimal text of a non-negative integer, as string concatenation produces it; the code
  applies it to \<^verbatim>\<open>Date.now()\<close> and to the length of an array.
\<close>

function show_int :: "int \<Rightarrow> string" where
  "show_int n =
    (if n < 10 then [show_digit n] else show_int (n div 10) @ [show_digit (n mod 10)])"
  by pat_completeness auto
termination
  by (relation "measure nat") auto

declare show_int.simps [simp del]


section \<open>The backend payload and the transformer\<close>

record summary_fields =
  total_users :: "real option"
  steps_avg_7d :: "real option"
  heart_rate_avg_7d :: "real option"
  sleep_avg_7d :: "real option"
  water_avg_7d :: "real option"

record trend =
  trend_metric :: string
  change_percent :: real

record anomaly =
  reason :: "string option"

record ts_item =
  metric :: string
  day :: string
  item_value :: real

text \<open>
  The four fields of the payload are optional; the destructuring
  \<^verbatim>\<open>const { summary = {}, trends = [], anomalies = [], timeseries = [] } = backendData\<close>
  replaces a missing one by its default.
\<close>

record payload =
  summary :: "summary_fields option"
  trends :: "trend list option"
  anomalies :: "anomaly list option"
  timeseries :: "ts_item list option"

record metric_set =
  totalPatients :: real
  activePatients :: real
  avgAge :: real
  criticalCases :: real
  avgSteps :: real
  avgHeartRate :: real
  avgSleep :: real
  avgWater :: real
  stepsChange :: real
  heartRateChange :: real
  sleepChange :: real
  waterChange :: real
  userGrowth :: "real option"

record transformed =
  metrics :: metric_set
  trendData :: "obj list"
  heartRateData :: "obj list"
  sleepData :: "obj list"
  waterData :: "obj list"
  t_anomalies :: "anomaly list"
  t_trends :: "trend list"

definition no_summary :: summary_fields where
  "no_summary = \<lparr>total_users = None, steps_avg_7d = None, heart_rate_avg_7d = None,
     sleep_avg_7d = None, water_avg_7d = None\<rparr>"

definition summary_of :: "payload \<Rightarrow> summary_fields" where
  "summary_of p = (case summary p of None \<Rightarrow> no_summary | Some s \<Rightarrow> s)"

definition trends_of :: "payload \<Rightarrow> trend list" where
  "trends_of p = (case trends p of None \<Rightarrow> [] | Some ts \<Rightarrow> ts)"

definition anomalies_of :: "payload \<Rightarrow> anomaly list" where
  "anomalies_of p = (case anomalies p of None \<Rightarrow> [] | Some as \<Rightarrow> as)"

definition timeseries_of :: "payload \<Rightarrow> ts_item list" where
  "timeseries_of p = (case timeseries p of None \<Rightarrow> [] | Some ts \<Rightarrow> ts)"

text \<open>
  \<^verbatim>\<open>chartData\<close> starts as the empty object literal, so a metric named like a property of
  \<^verbatim>\<open>Object.prototype\<close> is found by \<^verbatim>\<open>chartData[item.metric]\<close> before any array has been
  stored for it: the test \<^verbatim>\<open>!chartData[item.metric]\<close> is false, no array is created, and the
  call of \<^verbatim>\<open>push\<close> on the inherited value raises a TypeError.
\<close>

definition object_prototype_keys :: "string list" where
  "object_prototype_keys =
    [''constructor'', ''__defineGetter__'', ''__defineSetter__'', ''hasOwnProperty'',
     ''__lookupGetter__'', ''__lookupSetter__'', ''isPrototypeOf'', ''propertyIsEnumerable'',
     ''toString'', ''valueOf'', ''__proto__'', ''toLocaleString'']"

definition scaledValue :: "ts_item \<Rightarrow> real" where
  "scaledValue item =
    (if metric item = ''water'' then js_round ((item_value item / 1000) * 10) / 10
     else item_value item)"

text \<open>The literal \<^verbatim>\<open>{ date: item.day, value: scaledValue, [item.metric]: scaledValue }\<close>.\<close>

definition chart_entry :: "ts_item \<Rightarrow> obj" where
  "chart_entry item =
    AList.update (metric item) (JNum (scaledValue item))
      [(''date'', JStr (day item)), (''value'', JNum (scaledValue item))]"

type_synonym chart = "(string \<times> obj list) list"

definition chart_push :: "chart \<Rightarrow> ts_item \<Rightarrow> js_error + chart" where
  "chart_push cd item =
    (case map_of cd (metric item) of
       Some es \<Rightarrow> Inr (AList.update (metric item) (es @ [chart_entry item]) cd)
     | None \<Rightarrow>
         if metric item \<in> set object_prototype_keys
         then Inl (TypeError ''chartData[item.metric].push is not a function'')
         else Inr (AList.update (metric item) [chart_entry item] cd))"

fun forEach_chart :: "chart \<Rightarrow> ts_item list \<Rightarrow> js_error + chart" where
  "forEach_chart cd [] = Inr cd"
| "forEach_chart cd (item # rest) =
    (case chart_push cd item of Inl e \<Rightarrow> Inl e | Inr cd' \<Rightarrow> forEach_chart cd' rest)"

definition getTrendChange :: "trend list \<Rightarrow> string \<Rightarrow> real" where
  "getTrendChange ts m =
    (case find (\<lambda>t. trend_metric t = m) ts of None \<Rightarrow> 0 | Some t \<Rightarrow> change_percent t)"

definition is_urgent :: "anomaly \<Rightarrow> bool" where
  "is_urgent a = (case reason a of None \<Rightarrow> False | Some r \<Rightarrow> r \<noteq> [] \<and> sublist ''Urgent'' r)"

definition series_or :: "chart \<Rightarrow> string \<Rightarrow> obj list \<Rightarrow> obj list" where
  "series_or cd m d = (case map_of cd m of None \<Rightarrow> d | Some es \<Rightarrow> es)"

definition steps_fallback :: "ts_item list \<Rightarrow> obj list" where
  "steps_fallback ts =
    map (\<lambda>item. [(''date'', JStr (day item)), (''value'', JNum (item_value item))])
      (filter (\<lambda>item. metric item = ''steps'') ts)"

definition transformBackendData :: "payload \<Rightarrow> js_error + transformed" where
  "transformBackendData backendData =
    (let s = summary_of backendData;
         tr = trends_of backendData;
         an = anomalies_of backendData;
         ts = timeseries_of backendData
     in case forEach_chart [] ts of
          Inl e \<Rightarrow> Inl e
        | Inr chartData \<Rightarrow>
            (let users = num_or (total_users s) 1
             in Inr \<lparr>metrics =
                       \<lparr>totalPatients = users,
                        activePatients = users,
                        avgAge = 35,
                        criticalCases = of_nat (length (filter is_urgent an)),
                        avgSteps = js_round (num_or (steps_avg_7d s) 0),
                        avgHeartRate = js_round (num_or (heart_rate_avg_7d s) 0),
                        avgSleep = js_round (num_or (sleep_avg_7d s) 0 * 10) / 10,
                        avgWater = js_round (num_or (water_avg_7d s) 0),
                        stepsChange = getTrendChange tr ''steps'',
                        heartRateChange = getTrendChange tr ''heart_rate'',
                        sleepChange = getTrendChange tr ''sleep'',
                        waterChange = getTrendChange tr ''water'',
                        userGrowth = None\<rparr>,
                     trendData = series_or chartData ''steps'' (steps_fallback ts),
                     heartRateData = series_or chartData ''heart_rate'' [],
                     sleepData = series_or chartData ''sleep'' [],
                     waterData = series_or chartData ''water'' [],
                     t_anomalies = an,
                     t_trends = tr\<rparr>))"



text \<open>The specification's \<^verbatim>\<open>round(x, 1)\<close>, a tie going up.\<close>

definition round_1dp :: "real \<Rightarrow> real" where
  "round_1dp x = of_int \<lfloor>10 * x + 1 / 2\<rfloor> / 10"

definition series_values :: "obj list \<Rightarrow> jv option list" where
  "series_values es = map (\<lambda>e. map_of e ''value'') es"



text \<open>A field that is absent, or present with a value satisfying \<open>P\<close>.\<close>

definition absent_or :: "(real \<Rightarrow> bool) \<Rightarrow> real option \<Rightarrow> bool" where
  "absent_or P x = (case x of None \<Rightarrow> True | Some v \<Rightarrow> P v)"

text \<open>
  The mapping inside the accessor \<^verbatim>\<open>getWaterData\<close>, applied to the reply of
  \<^verbatim>\<open>GET /data/{id}/trends\<close>: in the copy under FrontEnd/src/services, and in the second copy,
  which rounds to one decimal place without dividing by 1000.
\<close>

definition getWaterData_points :: "ts_item list \<Rightarrow> obj list" where
  "getWaterData_points ts =
    map (\<lambda>item. [(''date'', JStr (day item)),
                  (''value'', JNum (js_round ((item_value item / 1000) * 10) / 10))])
      (filter (\<lambda>item. metric item = ''water'') ts)"

definition getWaterData2_points :: "ts_item list \<Rightarrow> obj list" where
  "getWaterData2_points ts =
    map (\<lambda>item. [(''date'', JStr (day item)),
                  (''value'', JNum (js_round (item_value item * 10) / 10))])
      (filter (\<lambda>item. metric item = ''water'') ts)"

subsection \<open>Example payloads\<close>

definition payload_typical :: payload where
  "payload_typical =
    \<lparr>summary = Some \<lparr>total_users = Some 5, steps_avg_7d = Some (84204 / 10),
                      heart_rate_avg_7d = Some (143 / 2), sleep_avg_7d = Some (726 / 100),
                      water_avg_7d = Some (17203 / 8)\<rparr>,
     trends = Some [\<lparr>trend_metric = ''steps'', change_percent = 4\<rparr>],
     anomalies = Some [\<lparr>reason = Some ''Urgent: heart rate''\<rparr>, \<lparr>reason = None\<rparr>],
     timeseries = Some
       [\<lparr>metric = ''steps'', day = ''2024-01-15'', item_value = 8500\<rparr>,
        \<lparr>metric = ''water'', day = ''2024-01-15'', item_value = 2200\<rparr>,
        \<lparr>metric = ''heart_rate'', day = ''2024-01-15'', item_value = 72\<rparr>,
        \<lparr>metric = ''sleep'', day = ''2024-01-15'', item_value = 15 / 2\<rparr>,
        \<lparr>metric = ''water'', day = ''2024-01-16'', item_value = 1849\<rparr>]\<rparr>"

definition payload_negative :: payload where
  "payload_negative =
    \<lparr>summary = Some \<lparr>total_users = Some (- 3), steps_avg_7d = None, heart_rate_avg_7d = None,
                      sleep_avg_7d = None, water_avg_7d = None\<rparr>,
     trends = Some [\<lparr>trend_metric = ''steps'', change_percent = - 5\<rparr>],
     anomalies = None,
     timeseries = None\<rparr>"


section \<open>The snapshot store, local storage and the network\<close>

text \<open>
  The constants of \<^verbatim>\<open>mockData.js\<close> are not part of the sources at hand; the functions below
  take the ones they read as a parameter.
\<close>

record mocks =
  mockMetrics :: metric_set
  mockDiseaseData :: "obj list"

text \<open>
  \<^verbatim>\<open>currentData\<close>, the module's single mutable object. The last five fields do not exist
  until an upload or a load creates them.
\<close>

record current_data =
  cur_metrics :: metric_set
  cur_trendData :: "obj list"
  cur_diseaseData :: "obj list"
  cur_ageGroups :: "obj list"
  cur_insights :: "obj list"
  cur_searchResults :: "obj list"
  cur_currentDataId :: "string option"
  previousUserCount :: real
  cur_heartRateData :: "obj list option"
  cur_sleepData :: "obj list option"
  cur_waterData :: "obj list option"
  cur_anomalies :: "anomaly list option"
  cur_trends :: "trend list option"

text \<open>
  A parsed JSON object of local storage, and the \<^verbatim>\<open>uploadData\<close> of an upload result: the
  fields the code reads or writes, each of them optional. \<^verbatim>\<open>ud_totalPatients\<close> is a field
  \<^verbatim>\<open>totalPatients\<close> of the stored object itself, beside \<^verbatim>\<open>metrics\<close>.
\<close>

record user_data =
  ud_metrics :: "metric_set option"
  ud_trendData :: "obj list option"
  ud_heartRateData :: "obj list option"
  ud_sleepData :: "obj list option"
  ud_waterData :: "obj list option"
  ud_diseaseData :: "obj list option"
  ud_anomalies :: "anomaly list option"
  ud_trends :: "trend list option"
  ud_uploadDate :: "string option"
  ud_fileName :: "string option"
  ud_data_id :: "string option"
  ud_totalPatients :: "real option"

definition empty_object :: user_data where
  "empty_object =
    \<lparr>ud_metrics = None, ud_trendData = None, ud_heartRateData = None, ud_sleepData = None,
     ud_waterData = None, ud_diseaseData = None, ud_anomalies = None, ud_trends = None,
     ud_uploadDate = None, ud_fileName = None, ud_data_id = None, ud_totalPatients = None\<rparr>"

text \<open>An item of local storage: text that \<^verbatim>\<open>JSON.parse\<close> rejects, or a JSON object.\<close>

datatype stored = Unparsable | Json user_data

datatype request = GetHealth | PostUpload string | GetSummary string

datatype event =
    Updated_transformed transformed
  | Updated_current current_data
  | Updated_upload "user_data option"

record world =
  currentData :: current_data
  localStorage :: "string \<Rightarrow> stored option"
  requests :: "request list"
  events :: "event list"

text \<open>What the backend answers to \<^verbatim>\<open>POST /upload\<close> and to \<^verbatim>\<open>GET /data/{id}/summary\<close>.\<close>

datatype upload_reply =
    Upload_rejected string
  | Upload_status string string
  | Upload_not_json string
  | Upload_json "string option"

datatype data_reply =
    Data_rejected string
  | Data_status string
  | Data_not_json string
  | Data_null
  | Data_json payload

text \<open>
  What the outside contributes to one call of \<^verbatim>\<open>uploadFile\<close>: whether the fetch of
  \<^verbatim>\<open>/health\<close> resolves, the two replies, the clock (\<^verbatim>\<open>Date.now()\<close> at its first and second
  reading, \<^verbatim>\<open>toISOString()\<close> likewise), \<^verbatim>\<open>Math.random()\<close>, the result of
  \<^verbatim>\<open>generateRandomData()\<close>, and whether \<^verbatim>\<open>localStorage.setItem\<close> raises.
\<close>

record env =
  health_reachable :: bool
  upload_reply :: upload_reply
  summary_reply :: data_reply
  now_first :: int
  now_second :: int
  iso_first :: string
  iso_second :: string
  random :: real
  random_data :: "obj list"
  storage_full :: bool

record upload_file =
  name :: string

record upload_result =
  success :: bool
  message :: string
  fileName :: "string option"
  data_id :: "string option"
  uploadData :: "user_data option"

definition truthy :: "string option \<Rightarrow> bool" where
  "truthy s = (case s of None \<Rightarrow> False | Some t \<Rightarrow> t \<noteq> [])"

definition userKey :: "string option \<Rightarrow> string" where
  "userKey userId =
    (case userId of
       None \<Rightarrow> ''healthApp_guest''
     | Some u \<Rightarrow> if u = [] then ''healthApp_guest'' else ''healthApp_user_'' @ u)"

definition sent :: "request \<Rightarrow> world \<Rightarrow> world" where
  "sent r w = w\<lparr>requests := requests w @ [r]\<rparr>"

definition dispatched :: "event \<Rightarrow> world \<Rightarrow> world" where
  "dispatched ev w = w\<lparr>events := events w @ [ev]\<rparr>"

definition wrapped :: "js_error \<Rightarrow> js_error + 'a" where
  "wrapped e = Inl (Error (''File upload failed: '' @ err_message e))"

text \<open>\<^verbatim>\<open>getDataById\<close>: \<open>None\<close> is the JSON value \<^verbatim>\<open>null\<close>.\<close>

definition getDataById :: "env \<Rightarrow> string \<Rightarrow> world \<Rightarrow> (js_error + payload option) \<times> world" where
  "getDataById e dataId w =
    (let w' = sent (GetSummary dataId) w
     in case summary_reply e of
          Data_rejected m \<Rightarrow> (Inl (TypeError m), w')
        | Data_status st \<Rightarrow> (Inl (Error (''Failed to fetch data: '' @ st)), w')
        | Data_not_json m \<Rightarrow> (Inl (SyntaxError m), w')
        | Data_null \<Rightarrow> (Inr None, w')
        | Data_json p \<Rightarrow> (Inr (Some p), w'))"

text \<open>The spread \<^verbatim>\<open>{ ...transformed, uploadDate, fileName, data_id }\<close>, as stored and parsed back.\<close>

definition snapshot_of :: "transformed \<Rightarrow> string \<Rightarrow> string \<Rightarrow> string \<Rightarrow> user_data" where
  "snapshot_of t date fname did =
    \<lparr>ud_metrics = Some (metrics t), ud_trendData = Some (trendData t),
     ud_heartRateData = Some (heartRateData t), ud_sleepData = Some (sleepData t),
     ud_waterData = Some (waterData t), ud_diseaseData = None,
     ud_anomalies = Some (t_anomalies t), ud_trends = Some (t_trends t),
     ud_uploadDate = Some date, ud_fileName = Some fname, ud_data_id = Some did,
     ud_totalPatients = None\<rparr>"


section \<open>uploadFile, the copy under FrontEnd/src/services\<close>

definition mockUploadResponse :: "mocks \<Rightarrow> env \<Rightarrow> upload_file \<Rightarrow> world \<Rightarrow> upload_result \<times> world" where
  "mockUploadResponse mk e file w =
    (let mockDataId = ''mock_'' @ show_int (now_first e);
         cd = (currentData w)
           \<lparr>cur_currentDataId := Some mockDataId,
            cur_metrics := (mockMetrics mk)
               \<lparr>totalPatients := of_int \<lfloor>fl (random e * 100)\<rfloor> + 50\<rparr>,
            cur_trendData := random_data e,
            cur_heartRateData := Some [],
            cur_sleepData := Some [],
            cur_waterData := Some []\<rparr>
     in (\<lparr>success = True,
          message = ''File processed with mock data (backend unavailable)'',
          fileName = Some (name file),
          data_id = Some mockDataId,
          uploadData = None\<rparr>,
         w\<lparr>currentData := cd\<rparr>))"

text \<open>\<^verbatim>\<open>Object.assign(currentData, transformed)\<close>.\<close>

definition assign_transformed :: "transformed \<Rightarrow> current_data \<Rightarrow> current_data" where
  "assign_transformed t cd =
    cd\<lparr>cur_metrics := metrics t, cur_trendData := trendData t,
       cur_heartRateData := Some (heartRateData t), cur_sleepData := Some (sleepData t),
       cur_waterData := Some (waterData t), cur_anomalies := Some (t_anomalies t),
       cur_trends := Some (t_trends t)\<rparr>"

text \<open>The part of \<^verbatim>\<open>uploadFile\<close> after the transformer has returned.\<close>

definition store_and_report ::
  "env \<Rightarrow> upload_file \<Rightarrow> string option \<Rightarrow> string \<Rightarrow> transformed \<Rightarrow> world
    \<Rightarrow> (js_error + upload_result) \<times> world"
where
  "store_and_report e file userId did t w =
    (let w5 = w\<lparr>currentData := assign_transformed t (currentData w)\<rparr>
     in if truthy userId \<and> storage_full e
        then (wrapped (Error ''QuotaExceededError''), w5)
        else
          (let w6 =
                 (if truthy userId
                  then w5\<lparr>localStorage := (localStorage w5)
                         (userKey userId \<mapsto> Json (snapshot_of t (iso_first e) (name file) did))\<rparr>
                  else w5);
               w7 = dispatched (Updated_transformed t) w6
           in (Inr \<lparr>success = True,
                    message = ''Health data processed successfully'',
                    fileName = Some (name file),
                    data_id = Some did,
                    uploadData = Some (empty_object
                      \<lparr>ud_metrics := Some (metrics t),
                       ud_diseaseData := Some (cur_diseaseData (currentData w7)),
                       ud_fileName := Some (name file),
                       ud_uploadDate := Some (if truthy userId then iso_second e else iso_first e),
                       ud_data_id := Some did\<rparr>)\<rparr>,
               w7)))"

definition fetch_and_transform ::
  "env \<Rightarrow> upload_file \<Rightarrow> string option \<Rightarrow> string \<Rightarrow> world
    \<Rightarrow> (js_error + upload_result) \<times> world"
where
  "fetch_and_transform e file userId did w =
    (case getDataById e did w of
       (Inl err, w4) \<Rightarrow> (wrapped err, w4)
     | (Inr None, w4) \<Rightarrow> (wrapped (TypeError ''Cannot destructure property of null''), w4)
     | (Inr (Some fullData), w4) \<Rightarrow>
         (case transformBackendData fullData of
            Inl err \<Rightarrow> (wrapped err, w4)
          | Inr t \<Rightarrow> store_and_report e file userId did t w4))"

definition uploadFile ::
  "mocks \<Rightarrow> env \<Rightarrow> upload_file \<Rightarrow> string option \<Rightarrow> world \<Rightarrow> (js_error + upload_result) \<times> world"
where
  "uploadFile mk e file userId w =
    (let w1 = sent GetHealth w
     in if \<not> health_reachable e
        then (case mockUploadResponse mk e file w1 of (r, w') \<Rightarrow> (Inr r, w'))
        else
          (let w2 = sent (PostUpload (name file)) w1
           in case upload_reply e of
                Upload_rejected m \<Rightarrow> (wrapped (TypeError m), w2)
              | Upload_status st txt \<Rightarrow>
                  (wrapped (Error (''Upload failed: '' @ st @ '' - '' @ txt)), w2)
              | Upload_not_json m \<Rightarrow> (wrapped (SyntaxError m), w2)
              | Upload_json None \<Rightarrow>
                  (wrapped (Error ''No data ID received from server''), w2)
              | Upload_json (Some did) \<Rightarrow>
                  if did = []
                  then (wrapped (Error ''No data ID received from server''), w2)
                  else fetch_and_transform e file userId did
                         (w2\<lparr>currentData := (currentData w2)\<lparr>cur_currentDataId := Some did\<rparr>\<rparr>)))"


section \<open>uploadFile, the second copy of api.js\<close>

definition userGrowth_of :: "real \<Rightarrow> real \<Rightarrow> real" where
  "userGrowth_of previousCount newCount =
    (if previousCount = 0 then (if newCount > 1 then 31 / 2 else fl (41 / 5))
     else js_round (fl (fl (fl (newCount - previousCount) / previousCount) * 100)))"

text \<open>
  \<^verbatim>\<open>JSON.parse(localStorage.getItem(userKey) || '{}')\<close> inside its own \<^verbatim>\<open>try\<close>: a missing item
  and an item that does not parse both leave the empty object.
\<close>

definition previous_data :: "world \<Rightarrow> string \<Rightarrow> user_data" where
  "previous_data w key =
    (case localStorage w key of
       None \<Rightarrow> empty_object
     | Some Unparsable \<Rightarrow> empty_object
     | Some (Json b) \<Rightarrow> b)"

definition new_insights :: "env \<Rightarrow> transformed \<Rightarrow> obj list" where
  "new_insights e t =
    [[(''id'', JNum (of_int (now_first e))),
      (''type'', JStr ''success''),
      (''title'', JStr ''Health Data Processed''),
      (''description'',
         JStr (''Analyzed health data with '' @ show_int (int (length (trendData t)))
               @ '' data points'')),
      (''timestamp'', JStr ''Just now'')],
     [(''id'', JNum (of_int (now_second e) + 1)),
      (''type'', JStr (if length (t_anomalies t) > 0 then ''warning'' else ''success'')),
      (''title'', JStr ''Health Assessment''),
      (''description'',
         JStr (if length (t_anomalies t) > 0
               then show_int (int (length (t_anomalies t))) @ '' anomalies detected''
               else ''All health metrics within normal ranges'')),
      (''timestamp'', JStr ''Just now'')]]"

text \<open>
  \<^verbatim>\<open>currentData.metrics\<close> and \<^verbatim>\<open>transformed.metrics\<close> are one object, so the assignment
  \<^verbatim>\<open>transformed.metrics.userGrowth = userGrowth\<close> shows in both.
\<close>

definition store_and_report2 ::
  "env \<Rightarrow> upload_file \<Rightarrow> string option \<Rightarrow> string \<Rightarrow> transformed \<Rightarrow> world
    \<Rightarrow> (js_error + upload_result) \<times> world"
where
  "store_and_report2 e file userId did t w =
    (let key = userKey userId;
         previousData = previous_data w key;
         previousCount = num_or (ud_totalPatients previousData) 0;
         growth = userGrowth_of previousCount (totalPatients (metrics t));
         t' = t\<lparr>metrics := (metrics t)\<lparr>userGrowth := Some growth\<rparr>\<rparr>;
         userDataToSave = snapshot_of t' (iso_first e) (name file) did;
         storage = (if storage_full e then localStorage w
                    else (localStorage w)(key \<mapsto> Json userDataToSave));
         cd = (currentData w)
           \<lparr>cur_metrics := metrics t',
            cur_trendData := trendData t',
            cur_heartRateData := Some (heartRateData t'),
            cur_sleepData := Some (sleepData t'),
            cur_waterData := Some (waterData t'),
            cur_insights := new_insights e t' @ take 2 (cur_insights (currentData w))\<rparr>
     in (Inr \<lparr>success = True,
              message = ''Health data processed successfully'',
              fileName = Some (name file),
              data_id = Some did,
              uploadData = Some userDataToSave\<rparr>,
         dispatched (Updated_current cd) (w\<lparr>currentData := cd, localStorage := storage\<rparr>)))"

definition fetch_and_transform2 ::
  "env \<Rightarrow> upload_file \<Rightarrow> string option \<Rightarrow> string \<Rightarrow> world
    \<Rightarrow> (js_error + upload_result) \<times> world"
where
  "fetch_and_transform2 e file userId did w =
    (case getDataById e did w of
       (Inl err, w4) \<Rightarrow> (wrapped err, w4)
     | (Inr None, w4) \<Rightarrow> (wrapped (Error ''Failed to fetch processed data''), w4)
     | (Inr (Some fullData), w4) \<Rightarrow>
         (case transformBackendData fullData of
            Inl err \<Rightarrow> (wrapped err, w4)
          | Inr t \<Rightarrow> store_and_report2 e file userId did t w4))"

definition uploadFile2 ::
  "env \<Rightarrow> upload_file \<Rightarrow> string option \<Rightarrow> world \<Rightarrow> (js_error + upload_result) \<times> world"
where
  "uploadFile2 e file userId w =
    (let w1 = sent GetHealth w
     in if \<not> health_reachable e
        then (wrapped (Error
                ''Backend server is not running. Please start the backend server first.''), w1)
        else
          (let w2 = sent (PostUpload (name file)) w1
           in case upload_reply e of
                Upload_rejected m \<Rightarrow> (wrapped (TypeError m), w2)
              | Upload_status st txt \<Rightarrow>
                  (wrapped (Error (''Upload failed: '' @ st @ '' - '' @ txt)), w2)
              | Upload_not_json m \<Rightarrow> (wrapped (SyntaxError m), w2)
              | Upload_json None \<Rightarrow>
                  (wrapped (Error ''No data ID received from server''), w2)
              | Upload_json (Some did) \<Rightarrow>
                  if did = []
                  then (wrapped (Error ''No data ID received from server''), w2)
                  else fetch_and_transform2 e file userId did
                         (w2\<lparr>currentData := (currentData w2)\<lparr>cur_currentDataId := Some did\<rparr>\<rparr>)))"


section \<open>loadUserData\<close>

definition list_or_empty :: "'a list option \<Rightarrow> 'a list" where
  "list_or_empty x = (case x of None \<Rightarrow> [] | Some xs \<Rightarrow> xs)"

text \<open>The assignments both copies of \<^verbatim>\<open>loadUserData\<close> make when the stored object has metrics.\<close>

definition restore :: "metric_set \<Rightarrow> user_data \<Rightarrow> current_data \<Rightarrow> current_data" where
  "restore m userData cd =
    cd\<lparr>cur_metrics := m,
       cur_trendData := list_or_empty (ud_trendData userData),
       cur_heartRateData := Some (list_or_empty (ud_heartRateData userData)),
       cur_sleepData := Some (list_or_empty (ud_sleepData userData)),
       cur_waterData := Some (list_or_empty (ud_waterData userData)),
       cur_currentDataId := ud_data_id userData\<rparr>"

text \<open>The second copy. \<^verbatim>\<open>JSON.parse\<close> is not guarded here: text that does not parse raises.\<close>

definition loadUserData2 :: "string option \<Rightarrow> world \<Rightarrow> (js_error + user_data option) \<times> world" where
  "loadUserData2 userId w =
    (case localStorage w (userKey userId) of
       Some Unparsable \<Rightarrow> (Inl (SyntaxError ''Unexpected token in JSON''), w)
     | stored_item \<Rightarrow>
         (let userData = (case stored_item of Some (Json b) \<Rightarrow> b | _ \<Rightarrow> empty_object)
          in case ud_metrics userData of
               None \<Rightarrow> (Inr None, w)
             | Some m \<Rightarrow>
                 (Inr (Some userData), w\<lparr>currentData := restore m userData (currentData w)\<rparr>)))"

text \<open>The copy under FrontEnd/src/services restores \<^verbatim>\<open>diseaseData\<close> as well.\<close>

definition loadUserData ::
  "mocks \<Rightarrow> string option \<Rightarrow> world \<Rightarrow> (js_error + user_data option) \<times> world"
where
  "loadUserData mk userId w =
    (case localStorage w (userKey userId) of
       Some Unparsable \<Rightarrow> (Inl (SyntaxError ''Unexpected token in JSON''), w)
     | stored_item \<Rightarrow>
         (let userData = (case stored_item of Some (Json b) \<Rightarrow> b | _ \<Rightarrow> empty_object)
          in case ud_metrics userData of
               None \<Rightarrow> (Inr None, w)
             | Some m \<Rightarrow>
                 (Inr (Some userData),
                  w\<lparr>currentData := (restore m userData (currentData w))
                      \<lparr>cur_diseaseData :=
                         (case ud_diseaseData userData of
                            None \<Rightarrow> mockDiseaseData mk
                          | Some d \<Rightarrow> d)\<rparr>\<rparr>)))"


section \<open>The upload page\<close>

record ui_state =
  uploading :: bool
  uploadResult :: "upload_result option"
  uploadedData :: "user_data option"

record user =
  user_id :: "string option"

record saved_upload =
  saved_fileName :: string
  saved_data_id :: "string option"
  saved_metrics :: "metric_set option"

definition failure :: "string \<Rightarrow> upload_result" where
  "failure msg =
    \<lparr>success = False, message = msg, fileName = None, data_id = None, uploadData = None\<rparr>"

text \<open>
  \<^verbatim>\<open>handleFile\<close> of the upload page. It calls \<^verbatim>\<open>api.uploadFile\<close> and the \<^verbatim>\<open>saveUserUpload\<close> of
  the authentication context; both are parameters, the first so that either copy of
  \<^verbatim>\<open>api.js\<close> can stand behind the page, the second because its source is not at hand.
\<close>

definition handleFile ::
  "(upload_file \<Rightarrow> string option \<Rightarrow> world \<Rightarrow> (js_error + upload_result) \<times> world)
    \<Rightarrow> (saved_upload \<Rightarrow> world \<Rightarrow> world)
    \<Rightarrow> user option \<Rightarrow> upload_file \<Rightarrow> ui_state \<times> world \<Rightarrow> ui_state \<times> world"
where
  "handleFile api_uploadFile saveUserUpload usr file st =
    (case st of (ui, w) \<Rightarrow>
      if \<not> suffix ''.csv'' (name file)
      then (ui\<lparr>uploadResult := Some (failure ''Please upload a CSV file only.'')\<rparr>, w)
      else
        (let ui1 = ui\<lparr>uploading := True, uploadResult := None, uploadedData := None\<rparr>
         in case api_uploadFile file (case usr of None \<Rightarrow> None | Some u \<Rightarrow> user_id u) w of
              (Inl err, w1) \<Rightarrow>
                (ui1\<lparr>uploadResult :=
                        Some (failure (if err_message err = []
                                       then ''Upload failed. Please try again.''
                                       else err_message err)),
                     uploading := False\<rparr>, w1)
            | (Inr result, w1) \<Rightarrow>
                (let ui2 = ui1\<lparr>uploadResult := Some result\<rparr>
                 in if success result
                    then
                      (let w2 = (case usr of
                                   None \<Rightarrow> w1
                                 | Some u \<Rightarrow>
                                     saveUserUpload
                                       \<lparr>saved_fileName = name file,
                                        saved_data_id = data_id result,
                                        saved_metrics =
                                          (case uploadData result of
                                             None \<Rightarrow> None
                                           | Some d \<Rightarrow> ud_metrics d)\<rparr> w1);
                           ui3 = (case uploadData result of
                                    None \<Rightarrow> ui2
                                  | Some d \<Rightarrow> ui2\<lparr>uploadedData := Some d\<rparr>)
                       in (ui3\<lparr>uploading := False\<rparr>,
                           dispatched (Updated_upload (uploadData result)) w2))
                    else (ui2\<lparr>uploading := False\<rparr>, w1))))"


section \<open>The what-if simulator\<close>

text \<open>
  \<^verbatim>\<open>mockForecastData\<close> and \<^verbatim>\<open>mockRiskData\<close> are parameters. The entries may carry more fields
  than the ones the simulator reads; the spread \<^verbatim>\<open>{ ...item, predicted: v }\<close> keeps them, as
  a record update does.
\<close>

record forecast_item =
  predicted :: real

record risk =
  type :: string
  level :: string
  percentage :: real

record 'a forecast =
  steps :: "'a list"
  heartRate :: "'a list"
  sleep :: "'a list"

record ('a, 'b) simulation = "'a forecast" +
  risks :: "'b list"

definition newPercentage :: "'b risk_scheme \<Rightarrow> real \<Rightarrow> real \<Rightarrow> real \<Rightarrow> real" where
  "newPercentage r sleepIncrease extraSteps hydrationIncrease =
    (if type r = ''fatigue''
     then max 5 (fl (fl (percentage r - fl (sleepIncrease * 15)) - fl (hydrationIncrease * 8)))
     else if type r = ''hydration''
     then max 5 (fl (percentage r - fl (hydrationIncrease * 25)))
     else if type r = ''sleep''
     then max 10 (fl (percentage r - fl (sleepIncrease * 20)))
     else if type r = ''stress''
     then max 8 (fl (fl (percentage r - fl (sleepIncrease * 10))
                      - fl (fl (extraSteps / 1000) * 3)))
     else percentage r)"

definition level_of :: "real \<Rightarrow> string" where
  "level_of p = (if p \<le> 25 then ''low'' else if p \<le> 50 then ''medium'' else ''high'')"

definition simulateForecast ::
  "'a forecast_item_scheme forecast \<Rightarrow> 'b risk_scheme list \<Rightarrow> real \<Rightarrow> real \<Rightarrow> real
    \<Rightarrow> ('a forecast_item_scheme, 'b risk_scheme) simulation"
where
  "simulateForecast mockForecastData mockRiskData sleepIncrease extraSteps hydrationIncrease =
    (let stepMultiplier = fl (1 + fl (extraSteps / 10000));
         sleepImpact = fl (sleepIncrease * (1 / 2));
         hydrationImpact = fl (hydrationIncrease * fl (3 / 10))
     in \<lparr>steps =
            map (\<lambda>item. item\<lparr>predicted :=
                   js_round (fl (fl (predicted item * stepMultiplier)
                                  + fl (extraSteps * fl (15 / 100))))\<rparr>)
              (steps mockForecastData),
          heartRate =
            map (\<lambda>item. item\<lparr>predicted :=
                   max 55 (js_round (fl (fl (predicted item - sleepImpact) - hydrationImpact)))\<rparr>)
              (heartRate mockForecastData),
          sleep =
            map (\<lambda>item. item\<lparr>predicted :=
                   min (19 / 2) (max 5 (fl (predicted item + fl (sleepIncrease * fl (8 / 10)))))\<rparr>)
              (sleep mockForecastData),
          risks =
            map (\<lambda>r. r\<lparr>percentage :=
                       js_round (newPercentage r sleepIncrease extraSteps hydrationIncrease),
                     level :=
                       level_of (newPercentage r sleepIncrease extraSteps hydrationIncrease)\<rparr>)
              mockRiskData\<rparr>)"

text \<open>
  The specification's account of the risk recalculation, in the real numbers: each category
  has a reduction that is linear in the three inputs and a floor; other categories are left
  as they are.
\<close>

definition risk_reduction :: "string \<Rightarrow> real \<Rightarrow> real \<Rightarrow> real \<Rightarrow> real" where
  "risk_reduction category sleepDelta extraSteps hydrationDelta =
    (if category = ''fatigue'' then 15 * sleepDelta + 8 * hydrationDelta
     else if category = ''hydration'' then 25 * hydrationDelta
     else if category = ''sleep'' then 20 * sleepDelta
     else if category = ''stress'' then 10 * sleepDelta + 3 * (extraSteps / 1000)
     else 0)"

definition risk_floor :: "string \<Rightarrow> real" where
  "risk_floor category =
    (if category = ''fatigue'' then 5 else if category = ''hydration'' then 5
     else if category = ''sleep'' then 10 else 8)"

definition floored_risk :: "'b risk_scheme \<Rightarrow> real \<Rightarrow> real \<Rightarrow> real \<Rightarrow> real" where
  "floored_risk r sleepDelta extraSteps hydrationDelta =
    max (risk_floor (type r))
      (percentage r - risk_reduction (type r) sleepDelta extraSteps hydrationDelta)"

definition four_categories :: "string list" where
  "four_categories = [''fatigue'', ''hydration'', ''sleep'', ''stress'']"

definition whole :: "real \<Rightarrow> bool" where
  "whole x = (of_int \<lfloor>x\<rfloor> = x)"

text \<open>
  A whole number of magnitude at most a million: the products and differences that the
  simulator forms of a few such numbers are exact in doubles.
\<close>

definition small_whole :: "real \<Rightarrow> bool" where
  "small_whole x = (whole x \<and> \<bar>x\<bar> \<le> 1000000)"



section \<open>Auxiliary notions for the proofs\<close>

text \<open>
  The state in which \<^verbatim>\<open>uploadFile\<close> receives the summary of the dataset \<open>did\<close>: three requests
  have been sent and \<^verbatim>\<open>currentDataId\<close> has been set.
\<close>

definition posted :: "upload_file \<Rightarrow> string \<Rightarrow> world \<Rightarrow> world" where
  "posted file did w =
    sent (GetSummary did)
      ((sent (PostUpload (name file)) (sent GetHealth w))
        \<lparr>currentData := (currentData w)\<lparr>cur_currentDataId := Some did\<rparr>\<rparr>)"


section \<open>Example inputs\<close>

definition mocks_example :: mocks where
  "mocks_example =
    \<lparr>mockMetrics =
       \<lparr>totalPatients = 1247, activePatients = 892, avgAge = 34, criticalCases = 3,
        avgSteps = 8420, avgHeartRate = 72, avgSleep = 36 / 5, avgWater = 21 / 10,
        stepsChange = 0, heartRateChange = 0, sleepChange = 0, waterChange = 0,
        userGrowth = None\<rparr>,
     mockDiseaseData = []\<rparr>"

definition insight_example :: "nat \<Rightarrow> obj" where
  "insight_example n =
    [(''id'', JNum (of_nat n)), (''type'', JStr ''success''), (''title'', JStr ''Earlier insight''),
     (''description'', JStr ''Steps are up''), (''timestamp'', JStr ''2 hours ago'')]"

definition world_initial :: world where
  "world_initial =
    \<lparr>currentData =
       \<lparr>cur_metrics = mockMetrics mocks_example, cur_trendData = [], cur_diseaseData = [],
        cur_ageGroups = [],
        cur_insights = [insight_example 1, insight_example 2, insight_example 3],
        cur_searchResults = [], cur_currentDataId = None, previousUserCount = 0,
        cur_heartRateData = None, cur_sleepData = None, cur_waterData = None,
        cur_anomalies = None, cur_trends = None\<rparr>,
     localStorage = (\<lambda>key. None),
     requests = [],
     events = []\<rparr>"

definition file_csv :: upload_file where
  "file_csv = \<lparr>name = ''health.csv''\<rparr>"

definition file_txt :: upload_file where
  "file_txt = \<lparr>name = ''notes.txt''\<rparr>"

definition payload_users :: "real \<Rightarrow> payload" where
  "payload_users n =
    \<lparr>summary = Some \<lparr>total_users = Some n, steps_avg_7d = Some 8000,
                      heart_rate_avg_7d = Some 70, sleep_avg_7d = Some 7,
                      water_avg_7d = Some 2000\<rparr>,
     trends = None,
     anomalies = None,
     timeseries = Some [\<lparr>metric = ''steps'', day = ''2024-01-15'', item_value = 8500\<rparr>]\<rparr>"

text \<open>A backend that is up and reports \<open>n\<close> users, and a backend that cannot be reached.\<close>

definition env_users :: "real \<Rightarrow> env" where
  "env_users n =
    \<lparr>health_reachable = True, upload_reply = Upload_json (Some ''d1''),
     summary_reply = Data_json (payload_users n),
     now_first = 1700000000000, now_second = 1700000000000,
     iso_first = ''2023-11-14T22:13:20.000Z'', iso_second = ''2023-11-14T22:13:20.000Z'',
     random = 37 / 100, random_data = [], storage_full = False\<rparr>"

definition env_down :: env where
  "env_down = (env_users 5)\<lparr>health_reachable := False\<rparr>"

text \<open>The state after a first upload, of a dataset with 10 users, by the user \<^verbatim>\<open>u1\<close>.\<close>

definition world_after_first :: world where
  "world_after_first = snd (uploadFile2 (env_users 10) file_csv (Some ''u1'') world_initial)"

definition point_example :: "string \<Rightarrow> real \<Rightarrow> obj" where
  "point_example d v = [(''date'', JStr d), (''value'', JNum v)]"

text \<open>A stored snapshot with three of the four series; \<^verbatim>\<open>sleepData\<close> is missing.\<close>

definition snapshot_example :: user_data where
  "snapshot_example =
    empty_object\<lparr>ud_metrics := Some ((mockMetrics mocks_example)\<lparr>totalPatients := 10\<rparr>),
                 ud_trendData := Some [point_example ''2024-01-15'' 8500],
                 ud_heartRateData := Some [point_example ''2024-01-15'' 72],
                 ud_waterData := Some [point_example ''2024-01-15'' (11 / 5)],
                 ud_data_id := Some ''d0''\<rparr>"

definition world_with_snapshot :: world where
  "world_with_snapshot =
    world_initial\<lparr>localStorage := (\<lambda>key. None)(''healthApp_user_u1'' \<mapsto> Json snapshot_example)\<rparr>"

definition forecast_example :: "forecast_item forecast" where
  "forecast_example =
    \<lparr>steps = [\<lparr>predicted = 8500\<rparr>, \<lparr>predicted = 9000\<rparr>],
     heartRate = [\<lparr>predicted = 72\<rparr>, \<lparr>predicted = 70\<rparr>],
     sleep = [\<lparr>predicted = fl (36 / 5)\<rparr>, \<lparr>predicted = 15 / 2\<rparr>]\<rparr>"

definition risks_example :: "risk list" where
  "risks_example =
    [\<lparr>type = ''fatigue'', level = ''medium'', percentage = 35\<rparr>,
     \<lparr>type = ''hydration'', level = ''low'', percentage = 20\<rparr>,
     \<lparr>type = ''sleep'', level = ''medium'', percentage = 45\<rparr>,
     \<lparr>type = ''stress'', level = ''high'', percentage = 60\<rparr>]"

definition risk_fatigue :: "real \<Rightarrow> risk" where
  "risk_fatigue p = \<lparr>type = ''fatigue'', level = ''medium'', percentage = p\<rparr>"

definition risk_hydration :: "real \<Rightarrow> risk" where
  "risk_hydration p = \<lparr>type = ''hydration'', level = ''medium'', percentage = p\<rparr>"



text \<open>The double that the decimal 1.1 denotes.\<close>

definition double_1_1 :: real where
  "double_1_1 = fl (11 / 10)"


section \<open>Properties of the transformer\<close>







lemma steps_fallback_empty:
  "filter (\<lambda>item. metric item = ''steps'') ts = [] \<Longrightarrow> steps_fallback ts = []"
  by (simp add: steps_fallback_def)




lemma transform_metrics:
  assumes "transformBackendData p = Inr t"
  shows "metrics t =
     \<lparr>totalPatients = num_or (total_users (summary_of p)) 1,
      activePatients = num_or (total_users (summary_of p)) 1,
      avgAge = 35,
      criticalCases = of_nat (length (filter is_urgent (anomalies_of p))),
      avgSteps = js_round (num_or (steps_avg_7d (summary_of p)) 0),
      avgHeartRate = js_round (num_or (heart_rate_avg_7d (summary_of p)) 0),
      avgSleep = js_round (num_or (sleep_avg_7d (summary_of p)) 0 * 10) / 10,
      avgWater = js_round (num_or (water_avg_7d (summary_of p)) 0),
      stepsChange = getTrendChange (trends_of p) ''steps'',
      heartRateChange = getTrendChange (trends_of p) ''heart_rate'',
      sleepChange = getTrendChange (trends_of p) ''sleep'',
      waterChange = getTrendChange (trends_of p) ''water'',
      userGrowth = None\<rparr>"
  using assms by (auto simp: transformBackendData_def Let_def split: sum.splits)






text \<open>
  The accessor \<^verbatim>\<open>getWaterData\<close> of the copy under FrontEnd/src/services yields the values of
  the transformer's water series; the one of the second copy leaves 2200 ml as 2200.
\<close>

lemma getWaterData_points_values:
  "series_values (getWaterData_points ts)
     = map (\<lambda>v. Some (JNum (round_1dp (v / 1000))))
         (map item_value (filter (\<lambda>item. metric item = ''water'') ts))"
  by (induction ts) (auto simp: getWaterData_points_def series_values_def js_round_def round_1dp_def)

lemma getWaterData2_points_unscaled:
  "series_values (getWaterData2_points [\<lparr>metric = ''water'', day = d, item_value = 2200\<rparr>])
     = [Some (JNum 2200)]"
  by (simp add: getWaterData2_points_def series_values_def js_round_def)



lemma js_round_nonneg: "0 \<le> x \<Longrightarrow> 0 \<le> js_round x"
  unfolding js_round_def by simp

lemma num_or_nonneg: "absent_or (\<lambda>v. 0 \<le> v) x \<Longrightarrow> 0 \<le> num_or x 0"
  by (auto simp: absent_or_def num_or_def split: option.splits)

lemma num_or_nonzero: "d \<noteq> 0 \<Longrightarrow> num_or x d \<noteq> 0"
  by (auto simp: num_or_def split: option.splits)

lemma num_or_users: "absent_or (\<lambda>v. v = 0 \<or> 1 \<le> v) x \<Longrightarrow> 1 \<le> num_or x 1"
  by (auto simp: absent_or_def num_or_def split: option.splits)

lemma getTrendChange_nonneg:
  "\<forall>t \<in> set ts. 0 \<le> change_percent t \<Longrightarrow> 0 \<le> getTrendChange ts m"
  unfolding getTrendChange_def by (induction ts) auto

text \<open>
  Claim C2, amended. The transformer copies \<^verbatim>\<open>summary.total_users\<close> into \<^verbatim>\<open>totalPatients\<close> and
  \<^verbatim>\<open>activePatients\<close>, putting 1 in the place of a missing value and of 0: the two fields are
  never 0, and they are at least 1 when \<^verbatim>\<open>total_users\<close> is missing, 0 or at least 1.
  \<^verbatim>\<open>avgAge\<close> and \<^verbatim>\<open>criticalCases\<close> are never negative. Each average is non-negative when
  its 7-day average in the summary is missing or non-negative, and the four change fields are
  non-negative when no trend entry of the payload has a negative \<^verbatim>\<open>change_percent\<close>.
\<close>

theorem C2_metrics_nonnegative_for_nonnegative_input:
  assumes "transformBackendData p = Inr t"
  shows "totalPatients (metrics t) \<noteq> 0
       \<and> activePatients (metrics t) = totalPatients (metrics t)
       \<and> 0 \<le> avgAge (metrics t) \<and> 0 \<le> criticalCases (metrics t)
       \<and> (absent_or (\<lambda>v. v = 0 \<or> 1 \<le> v) (total_users (summary_of p))
            \<longrightarrow> 1 \<le> totalPatients (metrics t))
       \<and> (absent_or (\<lambda>v. 0 \<le> v) (steps_avg_7d (summary_of p)) \<longrightarrow> 0 \<le> avgSteps (metrics t))
       \<and> (absent_or (\<lambda>v. 0 \<le> v) (heart_rate_avg_7d (summary_of p))
            \<longrightarrow> 0 \<le> avgHeartRate (metrics t))
       \<and> (absent_or (\<lambda>v. 0 \<le> v) (sleep_avg_7d (summary_of p)) \<longrightarrow> 0 \<le> avgSleep (metrics t))
       \<and> (absent_or (\<lambda>v. 0 \<le> v) (water_avg_7d (summary_of p)) \<longrightarrow> 0 \<le> avgWater (metrics t))
       \<and> ((\<forall>tr \<in> set (trends_of p). 0 \<le> change_percent tr)
            \<longrightarrow> 0 \<le> stepsChange (metrics t) \<and> 0 \<le> heartRateChange (metrics t)
                \<and> 0 \<le> sleepChange (metrics t) \<and> 0 \<le> waterChange (metrics t))"
  unfolding transform_metrics [OF assms]
  by (simp add: num_or_nonzero num_or_users js_round_nonneg num_or_nonneg getTrendChange_nonneg)

theorem C2_witness:
  "transformBackendData payload_typical = Inr (projr (transformBackendData payload_typical))
   \<and> totalPatients (metrics (projr (transformBackendData payload_typical))) = 5
   \<and> 1 \<le> totalPatients (metrics (projr (transformBackendData payload_typical)))
   \<and> 0 \<le> avgSteps (metrics (projr (transformBackendData payload_typical)))
   \<and> 0 \<le> avgHeartRate (metrics (projr (transformBackendData payload_typical)))
   \<and> 0 \<le> avgSleep (metrics (projr (transformBackendData payload_typical)))
   \<and> 0 \<le> avgWater (metrics (projr (transformBackendData payload_typical)))
   \<and> 0 \<le> stepsChange (metrics (projr (transformBackendData payload_typical)))
   \<and> 0 \<le> waterChange (metrics (projr (transformBackendData payload_typical)))"
proof -
  have h: "transformBackendData payload_typical = Inr (projr (transformBackendData payload_typical))"
    by code_simp
  have a: "absent_or (\<lambda>v. v = 0 \<or> 1 \<le> v) (total_users (summary_of payload_typical))"
    "absent_or (\<lambda>v. 0 \<le> v) (steps_avg_7d (summary_of payload_typical))"
    "absent_or (\<lambda>v. 0 \<le> v) (heart_rate_avg_7d (summary_of payload_typical))"
    "absent_or (\<lambda>v. 0 \<le> v) (sleep_avg_7d (summary_of payload_typical))"
    "absent_or (\<lambda>v. 0 \<le> v) (water_avg_7d (summary_of payload_typical))"
    by (simp_all add: absent_or_def summary_of_def payload_typical_def)
  have b: "\<forall>tr \<in> set (trends_of payload_typical). 0 \<le> change_percent tr"
    by (simp add: trends_of_def payload_typical_def)
  have c: "totalPatients (metrics (projr (transformBackendData payload_typical))) = 5"
    by code_simp
  show ?thesis
    using C2_metrics_nonnegative_for_nonnegative_input [OF h] h a b c
    by simp
qed

theorem C2_counterexample:
  "transformBackendData payload_negative = Inr (projr (transformBackendData payload_negative))
   \<and> totalPatients (metrics (projr (transformBackendData payload_negative))) = - 3
   \<and> stepsChange (metrics (projr (transformBackendData payload_negative))) = - 5
   \<and> \<not> 0 \<le> stepsChange (metrics (projr (transformBackendData payload_negative)))
   \<and> \<not> 1 \<le> totalPatients (metrics (projr (transformBackendData payload_negative)))"
  by code_simp




lemma uploadFile2_success:
  assumes "uploadFile2 e file userId w = (Inr r, w')"
  shows "\<exists>did p t. health_reachable e \<and> upload_reply e = Upload_json (Some did) \<and> did \<noteq> []
           \<and> summary_reply e = Data_json p \<and> transformBackendData p = Inr t
           \<and> store_and_report2 e file userId did t (posted file did w) = (Inr r, w')"
  using assms
  by (auto simp: uploadFile2_def fetch_and_transform2_def getDataById_def wrapped_def Let_def
        posted_def sent_def
      split: if_splits upload_reply.splits option.splits data_reply.splits sum.splits)

lemma uploadFile_success:
  assumes "uploadFile mk e file userId w = (Inr r, w')" and "health_reachable e"
  shows "\<exists>did p t. upload_reply e = Upload_json (Some did) \<and> did \<noteq> []
           \<and> summary_reply e = Data_json p \<and> transformBackendData p = Inr t
           \<and> store_and_report e file userId did t (posted file did w) = (Inr r, w')"
  using assms
  by (auto simp: uploadFile_def fetch_and_transform_def getDataById_def wrapped_def Let_def
        posted_def sent_def
      split: if_splits upload_reply.splits option.splits data_reply.splits sum.splits)


lemma store_and_report2_insights:
  assumes "store_and_report2 e file userId did t w0 = (Inr r, w')"
  shows "cur_insights (currentData w')
           = new_insights e t @ take 2 (cur_insights (currentData w0))"
  using assms
  by (auto simp: store_and_report2_def Let_def dispatched_def new_insights_def)

lemma store_and_report2_growth:
  assumes "store_and_report2 e file userId did t w0 = (Inr r, w')"
  shows "userGrowth (cur_metrics (currentData w'))
           = Some (userGrowth_of (num_or (ud_totalPatients (previous_data w0 (userKey userId))) 0)
                     (totalPatients (metrics t)))"
    and "totalPatients (cur_metrics (currentData w')) = totalPatients (metrics t)"
    and "\<not> storage_full e \<Longrightarrow>
           \<exists>b. localStorage w' (userKey userId) = Some (Json b) \<and> ud_totalPatients b = None
               \<and> map_option totalPatients (ud_metrics b) = Some (totalPatients (metrics t))"
  using assms
  by (auto simp: store_and_report2_def Let_def dispatched_def snapshot_of_def)

lemma posted_frame:
  "cur_insights (currentData (posted file did w)) = cur_insights (currentData w)"
  "localStorage (posted file did w) = localStorage w"
  "previous_data (posted file did w) key = previous_data w key"
  by (simp_all add: posted_def sent_def previous_data_def)

lemma uploadFile2_insights:
  assumes "uploadFile2 e file userId w = (Inr r, w')"
    and "summary_reply e = Data_json p" and "transformBackendData p = Inr t"
  shows "cur_insights (currentData w') = new_insights e t @ take 2 (cur_insights (currentData w))"
proof -
  from uploadFile2_success [OF assms(1)] assms(2,3) obtain did
    where "store_and_report2 e file userId did t (posted file did w) = (Inr r, w')"
    by auto
  from store_and_report2_insights [OF this] show ?thesis
    by (simp add: posted_frame)
qed

lemma uploadFile2_growth:
  assumes "uploadFile2 e file userId w = (Inr r, w')"
    and "summary_reply e = Data_json p" and "transformBackendData p = Inr t"
  shows "userGrowth (cur_metrics (currentData w'))
           = Some (userGrowth_of (num_or (ud_totalPatients (previous_data w (userKey userId))) 0)
                     (totalPatients (metrics t)))"
    and "totalPatients (cur_metrics (currentData w')) = totalPatients (metrics t)"
    and "\<not> storage_full e \<Longrightarrow>
           \<exists>b. localStorage w' (userKey userId) = Some (Json b) \<and> ud_totalPatients b = None
               \<and> map_option totalPatients (ud_metrics b) = Some (totalPatients (metrics t))"
proof -
  from uploadFile2_success [OF assms(1)] assms(2,3) obtain did
    where s: "store_and_report2 e file userId did t (posted file did w) = (Inr r, w')"
    by auto
  from store_and_report2_growth(1) [OF s]
  show "userGrowth (cur_metrics (currentData w'))
           = Some (userGrowth_of (num_or (ud_totalPatients (previous_data w (userKey userId))) 0)
                     (totalPatients (metrics t)))"
    by (simp add: posted_frame)
  from store_and_report2_growth(2) [OF s]
  show "totalPatients (cur_metrics (currentData w')) = totalPatients (metrics t)" .
  assume "\<not> storage_full e"
  from store_and_report2_growth(3) [OF s this]
  show "\<exists>b. localStorage w' (userKey userId) = Some (Json b) \<and> ud_totalPatients b = None
               \<and> map_option totalPatients (ud_metrics b) = Some (totalPatients (metrics t))" .
qed

text \<open>
  The snapshot that an upload stores keeps the number of users under \<^verbatim>\<open>metrics\<close>, and the
  next upload looks for it beside \<^verbatim>\<open>metrics\<close>: after an upload that was stored, the growth
  of the next upload by the same user is one of the two constants of a first upload.
\<close>

lemma uploadFile2_growth_after_own_snapshot:
  assumes first: "uploadFile2 e1 file1 userId w = (Inr r1, w1)" and "\<not> storage_full e1"
    and second: "uploadFile2 e2 file2 userId w1 = (Inr r2, w2)"
  shows "userGrowth (cur_metrics (currentData w2)) = Some (31 / 2)
       \<or> userGrowth (cur_metrics (currentData w2)) = Some (fl (41 / 5))"
proof -
  from uploadFile2_success [OF first] obtain p1 t1
    where a: "summary_reply e1 = Data_json p1" "transformBackendData p1 = Inr t1" by auto
  from uploadFile2_success [OF second] obtain p2 t2
    where b: "summary_reply e2 = Data_json p2" "transformBackendData p2 = Inr t2" by auto
  from uploadFile2_growth(3) [OF first a assms(2)] obtain blob
    where "localStorage w1 (userKey userId) = Some (Json blob)" "ud_totalPatients blob = None"
    by auto
  then have "num_or (ud_totalPatients (previous_data w1 (userKey userId))) 0 = 0"
    by (simp add: previous_data_def num_or_def)
  with uploadFile2_growth(1) [OF second b] show ?thesis
    by (simp add: userGrowth_of_def)
qed

lemma uploadFile2_first_growth:
  assumes "uploadFile2 e file userId w = (Inr r, w')"
    and "localStorage w (userKey userId) = None"
  shows "userGrowth (cur_metrics (currentData w'))
          = Some (if totalPatients (cur_metrics (currentData w')) > 1 then 31 / 2
                  else fl (41 / 5))"
proof -
  from uploadFile2_success [OF assms(1)] obtain p t
    where a: "summary_reply e = Data_json p" "transformBackendData p = Inr t" by auto
  from assms(2) have "num_or (ud_totalPatients (previous_data w (userKey userId))) 0 = 0"
    by (simp add: previous_data_def num_or_def empty_object_def)
  with uploadFile2_growth(1,2) [OF assms(1) a] show ?thesis
    by (simp add: userGrowth_of_def)
qed

text \<open>
  Claim C4. The growth of a second upload: the first upload, of a dataset with 10 users, is
  stored for the user \<^verbatim>\<open>u1\<close>; the second upload, of a dataset with 15 users, by the same
  user, gets the growth 15.5 of a first upload, where the percent change from 10 to 15 is 50.
\<close>

theorem C4_second_upload_growth:
  "\<not> isl (fst (uploadFile2 (env_users 10) file_csv (Some ''u1'') world_initial))
   \<and> totalPatients (cur_metrics (currentData world_after_first)) = 10
   \<and> \<not> isl (fst (uploadFile2 (env_users 15) file_csv (Some ''u1'') world_after_first))
   \<and> totalPatients (cur_metrics (currentData
         (snd (uploadFile2 (env_users 15) file_csv (Some ''u1'') world_after_first)))) = 15
   \<and> userGrowth (cur_metrics (currentData
         (snd (uploadFile2 (env_users 15) file_csv (Some ''u1'') world_after_first))))
       = Some (31 / 2)
   \<and> userGrowth_of 10 15 = 50"
  by code_simp

text \<open>
  Claim C1, amended. When the fetch of \<^verbatim>\<open>/health\<close> fails, the \<^verbatim>\<open>uploadFile\<close> of the copy under
  FrontEnd/src/services raises nothing: it returns a result with \<^verbatim>\<open>success: true\<close>, the mock
  data id \<^verbatim>\<open>mock_\<close> followed by the time, and it puts the mock metrics, with a random
  \<^verbatim>\<open>totalPatients\<close>, and the generated trend data into \<^verbatim>\<open>currentData\<close>, after that one
  request. The \<^verbatim>\<open>uploadFile\<close> of the second copy raises an error instead, with the message
  that the backend server is not running.
\<close>

theorem C1_unreachable_backend:
  assumes "\<not> health_reachable e"
  shows "fst (uploadFile mk e file userId w)
           = Inr \<lparr>success = True,
                  message = ''File processed with mock data (backend unavailable)'',
                  fileName = Some (name file),
                  data_id = Some (''mock_'' @ show_int (now_first e)),
                  uploadData = None\<rparr>
       \<and> cur_currentDataId (currentData (snd (uploadFile mk e file userId w)))
           = Some (''mock_'' @ show_int (now_first e))
       \<and> cur_metrics (currentData (snd (uploadFile mk e file userId w)))
           = (mockMetrics mk)\<lparr>totalPatients := of_int \<lfloor>fl (random e * 100)\<rfloor> + 50\<rparr>
       \<and> cur_trendData (currentData (snd (uploadFile mk e file userId w))) = random_data e
       \<and> requests (snd (uploadFile mk e file userId w)) = requests w @ [GetHealth]
       \<and> fst (uploadFile2 e file userId w)
           = Inl (Error (''File upload failed: ''
                @ ''Backend server is not running. Please start the backend server first.''))
       \<and> requests (snd (uploadFile2 e file userId w)) = requests w @ [GetHealth]"
  using assms
  by (simp add: uploadFile_def mockUploadResponse_def uploadFile2_def wrapped_def sent_def Let_def)

theorem C1_witness:
  "\<not> health_reachable env_down
   \<and> fst (uploadFile mocks_example env_down file_csv None world_initial)
       = Inr \<lparr>success = True,
              message = ''File processed with mock data (backend unavailable)'',
              fileName = Some ''health.csv'',
              data_id = Some ''mock_1700000000000'',
              uploadData = None\<rparr>
   \<and> totalPatients (cur_metrics (currentData
         (snd (uploadFile mocks_example env_down file_csv None world_initial)))) = 87
   \<and> requests (snd (uploadFile mocks_example env_down file_csv None world_initial)) = [GetHealth]"
proof -
  have h: "\<not> health_reachable env_down"
    by (simp add: env_down_def)
  have v: "show_int (now_first env_down) = ''1700000000000''" "name file_csv = ''health.csv''"
    "of_int \<lfloor>fl (random env_down * 100)\<rfloor> + 50 = (87::real)" "requests world_initial = []"
    by code_simp+
  show ?thesis
    using C1_unreachable_backend [OF h, of mocks_example file_csv None world_initial] h v
    by simp
qed

theorem C1_counterexample:
  "\<not> health_reachable env_down
   \<and> isl (fst (uploadFile2 env_down file_csv None world_initial))
   \<and> fst (uploadFile2 env_down file_csv None world_initial)
       = Inl (Error (''File upload failed: ''
            @ ''Backend server is not running. Please start the backend server first.''))"
  by code_simp


lemma returned:
  "\<not> isl (fst x) \<Longrightarrow> x = (Inr (projr (fst x)), snd x)"
  by (cases x, cases "fst x") auto

lemma uploadFile_insights_unchanged:
  "cur_insights (currentData (snd (uploadFile mk e file userId w))) = cur_insights (currentData w)"
  by (simp add: uploadFile_def mockUploadResponse_def fetch_and_transform_def getDataById_def
        store_and_report_def assign_transformed_def wrapped_def sent_def dispatched_def Let_def
      split: upload_reply.splits option.splits data_reply.splits sum.splits)

text \<open>
  Claim C5, amended. After a successful \<^verbatim>\<open>uploadFile\<close> of the second copy, the insights of
  the store are two new entries, \<^verbatim>\<open>Health Data Processed\<close> of type \<^verbatim>\<open>success\<close> and
  \<^verbatim>\<open>Health Assessment\<close> of type \<^verbatim>\<open>warning\<close> when the payload has an anomaly and
  \<^verbatim>\<open>success\<close> when it has none, in front of the first two of the insights that were there
  before: at most 2 earlier insights are kept. The \<^verbatim>\<open>uploadFile\<close> of the copy under
  FrontEnd/src/services leaves the insights as they were.
\<close>

theorem C5_insights_after_upload:
  assumes "uploadFile2 e file userId w = (Inr r, w')"
    and "summary_reply e = Data_json p"
    and "transformBackendData p = Inr t"
  shows "cur_insights (currentData w') = new_insights e t @ take 2 (cur_insights (currentData w))
       \<and> length (new_insights e t) = 2
       \<and> map (\<lambda>i. map_of i ''title'') (new_insights e t)
           = [Some (JStr ''Health Data Processed''), Some (JStr ''Health Assessment'')]
       \<and> map (\<lambda>i. map_of i ''type'') (new_insights e t)
           = [Some (JStr ''success''),
              Some (JStr (if anomalies_of p = [] then ''success'' else ''warning''))]
       \<and> cur_insights (currentData (snd (uploadFile mk e file userId w)))
           = cur_insights (currentData w)"
proof -
  have "t_anomalies t = anomalies_of p"
    using assms(3) by (auto simp: transformBackendData_def Let_def split: sum.splits)
  then show ?thesis
    using uploadFile2_insights [OF assms] uploadFile_insights_unchanged [of mk e "file" userId w]
    by (simp add: new_insights_def)
qed

theorem C5_witness:
  "fst (uploadFile2 (env_users 10) file_csv None world_initial)
     = Inr (projr (fst (uploadFile2 (env_users 10) file_csv None world_initial)))
   \<and> cur_insights (currentData (snd (uploadFile2 (env_users 10) file_csv None world_initial)))
     = new_insights (env_users 10) (projr (transformBackendData (payload_users 10)))
       @ [insight_example 1, insight_example 2]
   \<and> length (cur_insights (currentData
         (snd (uploadFile2 (env_users 10) file_csv None world_initial)))) = 4"
proof -
  have n: "\<not> isl (fst (uploadFile2 (env_users 10) file_csv None world_initial))"
    by code_simp
  have h: "uploadFile2 (env_users 10) file_csv None world_initial
      = (Inr (projr (fst (uploadFile2 (env_users 10) file_csv None world_initial))),
         snd (uploadFile2 (env_users 10) file_csv None world_initial))"
    using n by (rule returned)
  have p: "summary_reply (env_users 10) = Data_json (payload_users 10)"
    by (simp add: env_users_def)
  have t: "transformBackendData (payload_users 10)
      = Inr (projr (transformBackendData (payload_users 10)))"
    by code_simp
  have i: "take 2 (cur_insights (currentData world_initial))
      = [insight_example 1, insight_example 2]"
    by (simp add: world_initial_def)
  note c = C5_insights_after_upload [OF h p t, of mocks_example]
  show ?thesis
  proof (intro conjI)
    show "fst (uploadFile2 (env_users 10) file_csv None world_initial)
      = Inr (projr (fst (uploadFile2 (env_users 10) file_csv None world_initial)))"
      using n by (cases "fst (uploadFile2 (env_users 10) file_csv None world_initial)") auto
    show "cur_insights (currentData (snd (uploadFile2 (env_users 10) file_csv None world_initial)))
      = new_insights (env_users 10) (projr (transformBackendData (payload_users 10)))
        @ [insight_example 1, insight_example 2]"
      using c i by simp
    then show "length (cur_insights (currentData
         (snd (uploadFile2 (env_users 10) file_csv None world_initial)))) = 4"
      using c by simp
  qed
qed

theorem C5_counterexample:
  "\<not> isl (fst (uploadFile2 (env_users 10) file_csv None world_initial))
   \<and> length (cur_insights (currentData world_initial)) = 3
   \<and> length (cur_insights (currentData
         (snd (uploadFile2 (env_users 10) file_csv None world_initial)))) = 4
   \<and> drop 2 (cur_insights (currentData
         (snd (uploadFile2 (env_users 10) file_csv None world_initial))))
       = [insight_example 1, insight_example 2]
   \<and> drop 2 (cur_insights (currentData
         (snd (uploadFile2 (env_users 10) file_csv None world_initial))))
       \<noteq> take 3 (cur_insights (currentData world_initial))"
  by code_simp

lemma uploadFile_first_request:
  "\<exists>rest. requests (snd (uploadFile mk e file userId w)) = requests w @ GetHealth # rest"
  by (auto simp: uploadFile_def mockUploadResponse_def fetch_and_transform_def getDataById_def
        store_and_report_def wrapped_def sent_def dispatched_def Let_def
      split: upload_reply.splits option.splits data_reply.splits sum.splits)

lemma uploadFile2_first_request:
  "\<exists>rest. requests (snd (uploadFile2 e file userId w)) = requests w @ GetHealth # rest"
  by (auto simp: uploadFile2_def fetch_and_transform2_def getDataById_def
        store_and_report2_def wrapped_def sent_def dispatched_def Let_def
      split: upload_reply.splits option.splits data_reply.splits sum.splits)

text \<open>A file named \<^verbatim>\<open>*.csv\<close> does go to \<^verbatim>\<open>api.uploadFile\<close>, whose first act is the health probe.\<close>

lemma handleFile_csv_probes:
  assumes "suffix ''.csv'' (name file)"
  shows "\<exists>rest. requests (snd (handleFile (uploadFile mk e) saveUserUpload None file (ui, w)))
           = requests w @ GetHealth # rest"
proof -
  obtain res w1 where u: "uploadFile mk e file None w = (res, w1)"
    by (cases "uploadFile mk e file None w")
  from uploadFile_first_request [of mk e "file" None w] u
  obtain rest where r: "requests w1 = requests w @ GetHealth # rest"
    by auto
  show ?thesis
    using assms u r
    by (cases res) (auto simp: handleFile_def Let_def dispatched_def split: option.splits)
qed

text \<open>
  Claim C9. A file whose name does not end in \<^verbatim>\<open>.csv\<close> is rejected by \<^verbatim>\<open>handleFile\<close> with the
  result \<^verbatim>\<open>{ success: false, message: 'Please upload a CSV file only.' }\<close>; nothing else of
  the page's state changes, \<^verbatim>\<open>api.uploadFile\<close> is not called, and no request is sent: the
  store, local storage and the list of requests are as before.
\<close>

theorem C9_non_csv_rejected_before_any_request:
  assumes "\<not> suffix ''.csv'' (name file)"
  shows "handleFile api_uploadFile saveUserUpload usr file (ui, w)
           = (ui\<lparr>uploadResult := Some (failure ''Please upload a CSV file only.'')\<rparr>, w)
       \<and> map_option success
           (uploadResult (fst (handleFile api_uploadFile saveUserUpload usr file (ui, w))))
           = Some False
       \<and> requests (snd (handleFile api_uploadFile saveUserUpload usr file (ui, w))) = requests w"
  using assms by (simp add: handleFile_def failure_def)

theorem C9_witness:
  "\<not> suffix ''.csv'' (name file_txt)
   \<and> handleFile (uploadFile mocks_example (env_users 5)) (\<lambda>u w. w) None file_txt
        (\<lparr>uploading = False, uploadResult = None, uploadedData = None\<rparr>, world_initial)
       = (\<lparr>uploading = False,
           uploadResult = Some \<lparr>success = False, message = ''Please upload a CSV file only.'',
                                 fileName = None, data_id = None, uploadData = None\<rparr>,
           uploadedData = None\<rparr>, world_initial)
   \<and> requests (snd (handleFile (uploadFile mocks_example (env_users 5)) (\<lambda>u w. w) None file_txt
        (\<lparr>uploading = False, uploadResult = None, uploadedData = None\<rparr>, world_initial))) = []"
proof -
  have h: "\<not> suffix ''.csv'' (name file_txt)"
    by code_simp
  have r: "requests world_initial = []"
    by (simp add: world_initial_def)
  show ?thesis
    using h r
      C9_non_csv_rejected_before_any_request [OF h, of "uploadFile mocks_example (env_users 5)"
        "\<lambda>u w. w" None "\<lparr>uploading = False, uploadResult = None, uploadedData = None\<rparr>"
        world_initial]
    by (simp add: failure_def)
qed

text \<open>
  Claim C10. \<^verbatim>\<open>loadUserData\<close> writes to the store. When the object stored under the key of
  the user (the guest key without a user) has a field \<^verbatim>\<open>metrics\<close>, both copies return the
  stored object and overwrite \<^verbatim>\<open>metrics\<close>, \<^verbatim>\<open>trendData\<close>, \<^verbatim>\<open>heartRateData\<close>,
  \<^verbatim>\<open>sleepData\<close>, \<^verbatim>\<open>waterData\<close> and \<^verbatim>\<open>currentDataId\<close> of \<^verbatim>\<open>currentData\<close> with the stored
  \<^verbatim>\<open>metrics\<close>, the four stored series (an empty list for a series the stored object does not
  have) and the stored \<^verbatim>\<open>data_id\<close>; the second copy changes nothing else, the copy under
  FrontEnd/src/services sets \<^verbatim>\<open>diseaseData\<close> too. When nothing is stored under the key, or
  the stored object has no \<^verbatim>\<open>metrics\<close>, both copies return \<^verbatim>\<open>null\<close> and leave the whole state
  as it was.
\<close>

theorem C10_loadUserData_writes_store:
  "(localStorage w (userKey userId) = Some (Json b) \<and> ud_metrics b = Some m \<longrightarrow>
      loadUserData2 userId w =
        (Inr (Some b),
         w\<lparr>currentData := (currentData w)
             \<lparr>cur_metrics := m,
              cur_trendData := (case ud_trendData b of None \<Rightarrow> [] | Some series \<Rightarrow> series),
              cur_heartRateData :=
                Some (case ud_heartRateData b of None \<Rightarrow> [] | Some series \<Rightarrow> series),
              cur_sleepData := Some (case ud_sleepData b of None \<Rightarrow> [] | Some series \<Rightarrow> series),
              cur_waterData := Some (case ud_waterData b of None \<Rightarrow> [] | Some series \<Rightarrow> series),
              cur_currentDataId := ud_data_id b\<rparr>\<rparr>)
    \<and> loadUserData mk userId w =
        (Inr (Some b),
         w\<lparr>currentData := (currentData w)
             \<lparr>cur_metrics := m,
              cur_trendData := (case ud_trendData b of None \<Rightarrow> [] | Some series \<Rightarrow> series),
              cur_heartRateData :=
                Some (case ud_heartRateData b of None \<Rightarrow> [] | Some series \<Rightarrow> series),
              cur_sleepData := Some (case ud_sleepData b of None \<Rightarrow> [] | Some series \<Rightarrow> series),
              cur_waterData := Some (case ud_waterData b of None \<Rightarrow> [] | Some series \<Rightarrow> series),
              cur_currentDataId := ud_data_id b,
              cur_diseaseData :=
                (case ud_diseaseData b of None \<Rightarrow> mockDiseaseData mk | Some d \<Rightarrow> d)\<rparr>\<rparr>))
   \<and> (localStorage w (userKey userId) = None
        \<or> (localStorage w (userKey userId) = Some (Json b) \<and> ud_metrics b = None) \<longrightarrow>
      loadUserData2 userId w = (Inr None, w) \<and> loadUserData mk userId w = (Inr None, w))"
  by (auto simp: loadUserData2_def loadUserData_def restore_def list_or_empty_def empty_object_def
        Let_def)

theorem C10_witness:
  "localStorage world_with_snapshot (userKey (Some ''u1'')) = Some (Json snapshot_example)
   \<and> ud_metrics snapshot_example = Some ((mockMetrics mocks_example)\<lparr>totalPatients := 10\<rparr>)
   \<and> fst (loadUserData2 (Some ''u1'') world_with_snapshot) = Inr (Some snapshot_example)
   \<and> totalPatients (cur_metrics (currentData world_with_snapshot)) = 1247
   \<and> totalPatients (cur_metrics (currentData
         (snd (loadUserData2 (Some ''u1'') world_with_snapshot)))) = 10
   \<and> cur_trendData (currentData world_with_snapshot) = []
   \<and> cur_trendData (currentData (snd (loadUserData2 (Some ''u1'') world_with_snapshot)))
       = [[(''date'', JStr ''2024-01-15''), (''value'', JNum 8500)]]
   \<and> cur_heartRateData (currentData (snd (loadUserData2 (Some ''u1'') world_with_snapshot)))
       = Some [[(''date'', JStr ''2024-01-15''), (''value'', JNum 72)]]
   \<and> cur_sleepData (currentData (snd (loadUserData2 (Some ''u1'') world_with_snapshot)))
       = Some []
   \<and> cur_waterData (currentData (snd (loadUserData2 (Some ''u1'') world_with_snapshot)))
       = Some [[(''date'', JStr ''2024-01-15''), (''value'', JNum (11 / 5))]]
   \<and> cur_waterData (currentData
         (snd (loadUserData mocks_example (Some ''u1'') world_with_snapshot)))
       = Some [[(''date'', JStr ''2024-01-15''), (''value'', JNum (11 / 5))]]
   \<and> cur_currentDataId (currentData
         (snd (loadUserData mocks_example (Some ''u1'') world_with_snapshot))) = Some ''d0''
   \<and> localStorage world_initial (userKey (Some ''u1'')) = None
   \<and> loadUserData2 (Some ''u1'') world_initial = (Inr None, world_initial)
   \<and> loadUserData mocks_example (Some ''u1'') world_initial = (Inr None, world_initial)"
proof -
  have s: "localStorage world_with_snapshot (userKey (Some ''u1'')) = Some (Json snapshot_example)"
    by (simp add: world_with_snapshot_def userKey_def)
  have m: "ud_metrics snapshot_example = Some ((mockMetrics mocks_example)\<lparr>totalPatients := 10\<rparr>)"
    by (simp add: snapshot_example_def)
  have d: "ud_data_id snapshot_example = Some ''d0''"
    "ud_trendData snapshot_example = Some [[(''date'', JStr ''2024-01-15''), (''value'', JNum 8500)]]"
    "ud_heartRateData snapshot_example
       = Some [[(''date'', JStr ''2024-01-15''), (''value'', JNum 72)]]"
    "ud_sleepData snapshot_example = None"
    "ud_waterData snapshot_example
       = Some [[(''date'', JStr ''2024-01-15''), (''value'', JNum (11 / 5))]]"
    by (simp_all add: snapshot_example_def point_example_def empty_object_def)
  have o: "totalPatients (cur_metrics (currentData world_with_snapshot)) = 1247"
    "cur_trendData (currentData world_with_snapshot) = []"
    by (simp_all add: world_with_snapshot_def world_initial_def mocks_example_def)
  have n: "localStorage world_initial (userKey (Some ''u1'')) = None"
    by (simp add: world_initial_def)
  show ?thesis
    using s m d o n
      C10_loadUserData_writes_store [of world_with_snapshot "Some ''u1''" snapshot_example
        "(mockMetrics mocks_example)\<lparr>totalPatients := 10\<rparr>" mocks_example]
      C10_loadUserData_writes_store [of world_initial "Some ''u1''" snapshot_example
        "(mockMetrics mocks_example)\<lparr>totalPatients := 10\<rparr>" mocks_example]
    by simp
qed

section \<open>Properties of the rounding to doubles\<close>

lemma round_even_of_int: "round_even (of_int m) = m"
  by (simp add: round_even_def)

lemma pow2_neg: "0 \<le> n \<Longrightarrow> pow2 (- n) = 1 / 2 ^ nat n"
  by (cases "n = 0") (simp_all add: pow2_def)


text \<open>Every integer below \<^verbatim>\<open>2^53\<close> in magnitude is a double.\<close>

lemma fl_of_int:
  assumes "\<bar>k\<bar> < 2 ^ 53"
  shows "fl (of_int k) = of_int k"
proof (cases "k = 0")
  case True
  then show ?thesis by (simp add: fl_def)
next
  case False
  define a where "a = \<bar>k\<bar>"
  have a: "0 < a" "a < 2 ^ 53" using False assms by (simp_all add: a_def)
  define b where "b = bitlen a"
  have b1: "1 \<le> b" using a(1) by (simp add: b_def bitlen_alt_def)
  have "2 ^ nat (b - 1) \<le> a" using bitlen_bounds [OF a(1)] by (simp add: b_def)
  with a(2) have "(2::int) ^ nat (b - 1) < 2 ^ 53" by simp
  then have "nat (b - 1) < 53" by (rule power_less_imp_less_exp [rotated]) simp
  then have b2: "b \<le> 53" by simp
  have abs: "\<bar>real_of_int k\<bar> = of_int a" by (simp add: a_def)
  have ge1: "1 \<le> \<bar>real_of_int k\<bar>" using a(1) unfolding abs by simp
  have "binade (of_int k) = b - 1"
    using ge1 unfolding binade_def abs by (simp add: b_def)
  then have u: "ulp (of_int k) = 1 / 2 ^ nat (53 - b)"
    using b1 b2 pow2_neg [of "53 - b"] by (simp add: ulp_def max_def)
  have "real_of_int k / ulp (of_int k) = of_int (k * 2 ^ nat (53 - b))"
    unfolding u by simp
  then have "round_even (real_of_int k / ulp (of_int k)) = k * 2 ^ nat (53 - b)"
    by (simp only: round_even_of_int)
  then show ?thesis
    using False unfolding fl_def u by simp
qed

lemma fl_whole:
  assumes "whole x" and "\<bar>x\<bar> < 2 ^ 53"
  shows "fl x = x"
proof -
  from assms(1) have x: "x = of_int \<lfloor>x\<rfloor>" unfolding whole_def by (rule sym)
  from assms(2) have "\<bar>real_of_int \<lfloor>x\<rfloor>\<bar> < 2 ^ 53" using x by simp
  then have "\<bar>\<lfloor>x\<rfloor>\<bar> < 2 ^ 53"
    by (metis of_int_abs of_int_less_numeral_power_cancel_iff)
  from fl_of_int [OF this] x show ?thesis by simp
qed

lemma pow2_pos: "0 < pow2 e"
  by (simp add: pow2_def)

lemma ulp_pos: "0 < ulp x"
  by (simp add: ulp_def pow2_pos)

text \<open>\<open>binade x\<close> is the exponent of \<open>x\<close>.\<close>

lemma binade_bounds:
  assumes "x \<noteq> 0"
  shows "pow2 (binade x) \<le> \<bar>x\<bar> \<and> \<bar>x\<bar> < pow2 (binade x + 1)"
proof (cases "1 \<le> \<bar>x\<bar>")
  case True
  define n where "n = \<lfloor>\<bar>x\<bar>\<rfloor>"
  have n: "0 < n" using True by (simp add: n_def)
  define b where "b = bitlen n"
  have b1: "1 \<le> b" using n by (simp add: b_def bitlen_alt_def)
  have lo: "2 ^ nat (b - 1) \<le> n" and hi: "n < 2 ^ nat b"
    using bitlen_bounds [OF n] by (simp_all add: b_def)
  have "real_of_int (2 ^ nat (b - 1)) \<le> of_int n" using lo by (simp only: of_int_le_iff)
  also have "\<dots> \<le> \<bar>x\<bar>" by (simp add: n_def)
  finally have l: "2 ^ nat (b - 1) \<le> \<bar>x\<bar>" by simp
  have "n + 1 \<le> 2 ^ nat b" using hi by simp
  then have "real_of_int (n + 1) \<le> of_int (2 ^ nat b)" by (simp only: of_int_le_iff)
  then have nb: "real_of_int (n + 1) \<le> 2 ^ nat b" by simp
  have "\<bar>x\<bar> < of_int (n + 1)" unfolding n_def by linarith
  then have h: "\<bar>x\<bar> < 2 ^ nat b" using nb by (rule order_less_le_trans)
  have "binade x = b - 1" using True by (simp add: binade_def n_def b_def)
  then show ?thesis using l h b1 by (simp add: pow2_def)
next
  case False
  then have x1: "\<bar>x\<bar> < 1" by simp
  have x0: "0 < \<bar>x\<bar>" using assms by simp
  define m where "m = \<lceil>1 / \<bar>x\<bar>\<rceil>"
  have "1 < 1 / \<bar>x\<bar>" using x0 x1 by simp
  then have m2: "2 \<le> m" unfolding m_def by linarith
  define k where "k = bitlen (m - 1)"
  have m1: "0 < m - 1" using m2 by simp
  have k1: "1 \<le> k" using m1 by (simp add: k_def bitlen_alt_def)
  have lo: "2 ^ nat (k - 1) \<le> m - 1" and hi: "m - 1 < 2 ^ nat k"
    using bitlen_bounds [OF m1] by (simp_all add: k_def)
  have "m \<le> 2 ^ nat k" using hi by simp
  then have "real_of_int m \<le> of_int (2 ^ nat k)" by (simp only: of_int_le_iff)
  then have mk: "real_of_int m \<le> 2 ^ nat k" by simp
  have "1 / \<bar>x\<bar> \<le> of_int m" by (simp add: m_def)
  with mk have "1 / \<bar>x\<bar> \<le> 2 ^ nat k" by (rule order_trans [rotated])
  then have l: "1 / 2 ^ nat k \<le> \<bar>x\<bar>"
    using x0 by (simp add: field_simps)
  have "real_of_int (2 ^ nat (k - 1)) \<le> of_int (m - 1)" using lo by (simp only: of_int_le_iff)
  then have km: "2 ^ nat (k - 1) \<le> real_of_int (m - 1)" by simp
  have "real_of_int (m - 1) < 1 / \<bar>x\<bar>" unfolding m_def by linarith
  with km have "2 ^ nat (k - 1) < 1 / \<bar>x\<bar>" by (rule order_le_less_trans)
  then have h: "\<bar>x\<bar> < 1 / 2 ^ nat (k - 1)"
    using x0 by (simp add: field_simps)
  have bin: "binade x = - k" using False by (simp add: binade_def m_def k_def)
  have p1: "pow2 (- k) = 1 / 2 ^ nat k" using k1 by (simp add: pow2_neg)
  have p2: "pow2 (- k + 1) = 1 / 2 ^ nat (k - 1)"
    using pow2_neg [of "k - 1"] k1 by simp
  show ?thesis unfolding bin p1 p2 using l h by simp
qed

lemma round_even_error: "\<bar>of_int (round_even y) - y\<bar> \<le> 1 / 2"
  unfolding round_even_def Let_def by (auto; linarith)

text \<open>The rounding moves a number by at most half the spacing of the doubles around it.\<close>

lemma fl_error: "\<bar>fl x - x\<bar> \<le> ulp x / 2"
proof (cases "x = 0")
  case True
  then show ?thesis using ulp_pos [of 0] by (simp add: fl_def)
next
  case False
  have "\<bar>of_int (round_even (x / ulp x)) - x / ulp x\<bar> * ulp x \<le> 1 / 2 * ulp x"
    using round_even_error [of "x / ulp x"] ulp_pos [of x] by (intro mult_right_mono) simp_all
  moreover have "\<bar>of_int (round_even (x / ulp x)) - x / ulp x\<bar> * ulp x
      = \<bar>of_int (round_even (x / ulp x)) * ulp x - x\<bar>"
    using ulp_pos [of x] by (simp add: abs_mult [symmetric] left_diff_distrib abs_mult_pos)
  ultimately show ?thesis using False by (simp add: fl_def)
qed

lemma whole_Ints: "whole x \<longleftrightarrow> x \<in> \<int>"
proof
  assume "whole x"
  then have "x = of_int \<lfloor>x\<rfloor>" unfolding whole_def by (rule sym)
  then show "x \<in> \<int>" by (metis Ints_of_int)
next
  assume "x \<in> \<int>"
  then show "whole x" unfolding whole_def by (auto elim: Ints_cases)
qed

lemma js_round_whole: "whole x \<Longrightarrow> js_round x = x"
proof -
  assume "whole x"
  then have x: "x = of_int \<lfloor>x\<rfloor>" unfolding whole_def by (rule sym)
  have "\<lfloor>of_int \<lfloor>x\<rfloor> + (1 / 2 :: real)\<rfloor> = \<lfloor>x\<rfloor>" by linarith
  then have "js_round (of_int \<lfloor>x\<rfloor>) = of_int \<lfloor>x\<rfloor>" by (simp add: js_round_def)
  with x show ?thesis by simp
qed

text \<open>
  The rounding at work, on values the code meets: 1.1 is not a double, \<^verbatim>\<open>0.1 * 3\<close> is not
  0.3, a growth from 40 to 63 users is 57 percent after the rounding of the quotient and of
  the product (57.5 exactly), and \<^verbatim>\<open>Math.floor(0.37 * 100)\<close> is 37 where the double 0.37 is
  below 0.37.
\<close>

lemma fl_examples:
  "fl (11 / 10) = 4953959590107546 / 4503599627370496"
  "fl (fl (1 / 10) * 3) \<noteq> fl (3 / 10)"
  "userGrowth_of 40 63 = 57"
  "js_round (((63 - 40) / 40) * 100 :: real) = 58"
  "\<lfloor>fl (fl (37 / 100) * 100)\<rfloor> = 37"
  "\<lfloor>fl (37 / 100) * 100\<rfloor> = 36"
  by code_simp+

section \<open>Properties of the simulator\<close>


lemma fl_Ints: "x \<in> \<int> \<Longrightarrow> \<bar>x\<bar> < 2 ^ 53 \<Longrightarrow> fl x = x"
  by (simp add: fl_whole whole_Ints)

lemma fl_less_product:
  assumes "a \<in> \<int>" "\<bar>a\<bar> \<le> 100000000" "t \<in> \<int>" "\<bar>t\<bar> \<le> 1000000" "c \<in> \<int>" "\<bar>c\<bar> \<le> 25"
  shows "fl (a - fl (t * c)) = a - t * c"
proof -
  have "\<bar>t * c\<bar> \<le> 1000000 * 25"
    unfolding abs_mult using assms(4,6) by (intro mult_mono) simp_all
  then have b: "\<bar>t * c\<bar> \<le> 25000000" by simp
  have "t * c \<in> \<int>" using assms(3,5) by simp
  then have p: "fl (t * c) = t * c" using b by (intro fl_Ints) simp_all
  have "a - t * c \<in> \<int>" using assms(1,3,5) by simp
  moreover have "\<bar>a - t * c\<bar> < 2 ^ 53" using assms(2) b by simp
  ultimately show ?thesis unfolding p by (rule fl_Ints)
qed

lemma simulated_risk:
  assumes "i < length mr"
  shows "risks (simulateForecast mf mr s x h) ! i
     = (mr ! i)\<lparr>percentage := js_round (newPercentage (mr ! i) s x h),
                 level := level_of (newPercentage (mr ! i) s x h)\<rparr>"
  using assms by (simp add: simulateForecast_def)

lemma newPercentage_floor:
  "type r \<in> set four_categories \<Longrightarrow> risk_floor (type r) \<le> newPercentage r s x h"
  by (auto simp: four_categories_def newPercentage_def risk_floor_def)

text \<open>With whole numbers the double arithmetic of the code is the arithmetic of the reals.\<close>

lemma newPercentage_exact:
  assumes "type r \<in> set four_categories"
    and "small_whole (percentage r)" "small_whole s" "small_whole (x / 1000)" "small_whole h"
  shows "newPercentage r s x h = floored_risk r s x h"
proof -
  have p: "percentage r \<in> \<int>" "\<bar>percentage r\<bar> \<le> 1000000"
    and s: "s \<in> \<int>" "\<bar>s\<bar> \<le> 1000000"
    and k: "x / 1000 \<in> \<int>" "\<bar>x / 1000\<bar> \<le> 1000000"
    and h: "h \<in> \<int>" "\<bar>h\<bar> \<le> 1000000"
    using assms(2-5) by (simp_all add: small_whole_def whole_Ints)
  have first: "fl (percentage r - fl (s * c)) = percentage r - s * c"
    if "c \<in> \<int>" "\<bar>c\<bar> \<le> 25" for c
    using p s that by (intro fl_less_product) simp_all
  have second: "fl ((percentage r - s * c) - fl (t * d)) = percentage r - s * c - t * d"
    if "c \<in> \<int>" "\<bar>c\<bar> \<le> 25" "d \<in> \<int>" "\<bar>d\<bar> \<le> 25" "t \<in> \<int>" "\<bar>t\<bar> \<le> 1000000" for c d t
  proof -
    have "\<bar>s * c\<bar> \<le> 1000000 * 25"
      unfolding abs_mult using s(2) that(2) by (intro mult_mono) simp_all
    then have "\<bar>percentage r - s * c\<bar> \<le> 100000000" using p(2) by simp
    moreover have "percentage r - s * c \<in> \<int>" using p(1) s(1) that(1) by simp
    ultimately show ?thesis using that by (intro fl_less_product) simp_all
  qed
  have hyd: "fl (percentage r - fl (h * 25)) = percentage r - h * 25"
    using p h by (intro fl_less_product) simp_all
  have steps: "fl (x / 1000) = x / 1000"
    using k by (intro fl_Ints) simp_all
  have f15: "fl (percentage r - fl (s * 15)) = percentage r - s * 15"
    and f20: "fl (percentage r - fl (s * 20)) = percentage r - s * 20"
    and f10: "fl (percentage r - fl (s * 10)) = percentage r - s * 10"
    by (rule first; simp)+
  have s8: "fl ((percentage r - s * 15) - fl (h * 8)) = percentage r - s * 15 - h * 8"
    using h by (intro second) simp_all
  have s3: "fl ((percentage r - s * 10) - fl (x / 1000 * 3))
      = percentage r - s * 10 - x / 1000 * 3"
    using k by (intro second) simp_all
  consider "type r = ''fatigue''" | "type r = ''hydration''" | "type r = ''sleep''"
    | "type r = ''stress''"
    using assms(1) by (auto simp: four_categories_def)
  then show ?thesis
  proof cases
    case 1
    have "newPercentage r s x h = max 5 (percentage r - s * 15 - h * 8)"
      using 1 unfolding newPercentage_def f15 s8 by simp
    moreover have "floored_risk r s x h = max 5 (percentage r - s * 15 - h * 8)"
      using 1 by (simp add: floored_risk_def risk_floor_def risk_reduction_def algebra_simps)
    ultimately show ?thesis by simp
  next
    case 2
    have "newPercentage r s x h = max 5 (percentage r - h * 25)"
      using 2 unfolding newPercentage_def hyd by simp
    moreover have "floored_risk r s x h = max 5 (percentage r - h * 25)"
      using 2 by (simp add: floored_risk_def risk_floor_def risk_reduction_def algebra_simps)
    ultimately show ?thesis by simp
  next
    case 3
    have "newPercentage r s x h = max 10 (percentage r - s * 20)"
      using 3 unfolding newPercentage_def f20 by simp
    moreover have "floored_risk r s x h = max 10 (percentage r - s * 20)"
      using 3 by (simp add: floored_risk_def risk_floor_def risk_reduction_def algebra_simps)
    ultimately show ?thesis by simp
  next
    case 4
    have "newPercentage r s x h = max 8 (percentage r - s * 10 - x / 1000 * 3)"
      using 4 unfolding newPercentage_def steps f10 s3 by simp
    moreover have "floored_risk r s x h = max 8 (percentage r - s * 10 - x / 1000 * 3)"
      using 4 by (simp add: floored_risk_def risk_floor_def risk_reduction_def algebra_simps)
    ultimately show ?thesis by simp
  qed
qed

lemma floored_risk_whole:
  assumes "small_whole (percentage r)" "small_whole s" "small_whole (x / 1000)" "small_whole h"
  shows "whole (floored_risk r s x h)"
proof -
  have i: "percentage r \<in> \<int>" "s \<in> \<int>" "x / 1000 \<in> \<int>" "h \<in> \<int>"
    using assms by (simp_all add: small_whole_def whole_Ints)
  have "15 * s + 8 * h \<in> \<int>"
    by (intro Ints_add Ints_mult Ints_numeral i)
  moreover have "25 * h \<in> \<int>"
    by (intro Ints_mult Ints_numeral i)
  moreover have "20 * s \<in> \<int>"
    by (intro Ints_mult Ints_numeral i)
  moreover have "10 * s + 3 * (x / 1000) \<in> \<int>"
    by (intro Ints_add Ints_mult Ints_numeral i)
  moreover note i(1)
  ultimately have "percentage r - risk_reduction (type r) s x h \<in> \<int>"
    unfolding risk_reduction_def by (auto intro!: Ints_diff)
  moreover have "risk_floor (type r) \<in> \<int>"
    by (simp add: risk_floor_def)
  ultimately show ?thesis
    by (simp add: floored_risk_def whole_Ints max_def)
qed



text \<open>
  Claim C8, amended. For every entry of the baseline whose category is fatigue, hydration,
  sleep or stress, \<^verbatim>\<open>simulateForecast\<close> computes \<^verbatim>\<open>newPercentage\<close> in double arithmetic, each
  product and each difference rounded: the baseline percentage less 15 sleep and less 8
  hydration (fatigue), less 25 hydration (hydration), less 20 sleep (sleep), less 10 sleep
  and less 3 per 1000 steps (stress), and not below the floor of the category (5, 5, 10, 8).
  The level is assigned from \<^verbatim>\<open>newPercentage\<close>: low up to 25, medium up to 50, high above;
  the percentage returned is \<^verbatim>\<open>newPercentage\<close> rounded to the nearest integer. When the
  baseline percentage, the sleep and hydration inputs and the thousands of steps are whole
  numbers of magnitude at most a million, \<^verbatim>\<open>newPercentage\<close> and the percentage returned are
  exactly the baseline less the linear combination, not below the floor; with a sleep
  increase of 1 and such a baseline, the sleep percentage is the baseline less 20, not below
  10.
\<close>

theorem C8_risk_recalculation:
  assumes "i < length mr" and "type (mr ! i) \<in> set four_categories"
  shows "type (risks (simulateForecast mf mr s x h) ! i) = type (mr ! i)
       \<and> percentage (risks (simulateForecast mf mr s x h) ! i)
           = js_round (newPercentage (mr ! i) s x h)
       \<and> level (risks (simulateForecast mf mr s x h) ! i)
           = level_of (newPercentage (mr ! i) s x h)
       \<and> risk_floor (type (mr ! i)) \<le> newPercentage (mr ! i) s x h
       \<and> (type (mr ! i) = ''fatigue'' \<longrightarrow> newPercentage (mr ! i) s x h
            = max 5 (fl (fl (percentage (mr ! i) - fl (s * 15)) - fl (h * 8))))
       \<and> (type (mr ! i) = ''hydration'' \<longrightarrow> newPercentage (mr ! i) s x h
            = max 5 (fl (percentage (mr ! i) - fl (h * 25))))
       \<and> (type (mr ! i) = ''sleep'' \<longrightarrow> newPercentage (mr ! i) s x h
            = max 10 (fl (percentage (mr ! i) - fl (s * 20))))
       \<and> (type (mr ! i) = ''stress'' \<longrightarrow> newPercentage (mr ! i) s x h
            = max 8 (fl (fl (percentage (mr ! i) - fl (s * 10)) - fl (fl (x / 1000) * 3))))
       \<and> (newPercentage (mr ! i) s x h \<le> 25
            \<longrightarrow> level (risks (simulateForecast mf mr s x h) ! i) = ''low'')
       \<and> (25 < newPercentage (mr ! i) s x h \<and> newPercentage (mr ! i) s x h \<le> 50
            \<longrightarrow> level (risks (simulateForecast mf mr s x h) ! i) = ''medium'')
       \<and> (50 < newPercentage (mr ! i) s x h
            \<longrightarrow> level (risks (simulateForecast mf mr s x h) ! i) = ''high'')
       \<and> (small_whole (percentage (mr ! i)) \<and> small_whole s \<and> small_whole (x / 1000)
              \<and> small_whole h
            \<longrightarrow> newPercentage (mr ! i) s x h = floored_risk (mr ! i) s x h
              \<and> percentage (risks (simulateForecast mf mr s x h) ! i)
                  = floored_risk (mr ! i) s x h)
       \<and> (type (mr ! i) = ''sleep'' \<and> small_whole (percentage (mr ! i))
            \<longrightarrow> percentage (risks (simulateForecast mf mr 1 0 0) ! i)
                = max 10 (percentage (mr ! i) - 20))"
proof -
  have exact: "newPercentage (mr ! i) s x h = floored_risk (mr ! i) s x h
      \<and> percentage (risks (simulateForecast mf mr s x h) ! i) = floored_risk (mr ! i) s x h"
    if "small_whole (percentage (mr ! i))" "small_whole s" "small_whole (x / 1000)"
      "small_whole h" for s x h
    using assms that
    by (simp add: simulated_risk newPercentage_exact floored_risk_whole js_round_whole)
  have one: "small_whole 1" "small_whole 0" "small_whole (0 / 1000)"
    by (simp_all add: small_whole_def whole_def)
  have sleep: "percentage (risks (simulateForecast mf mr 1 0 0) ! i)
      = max 10 (percentage (mr ! i) - 20)"
    if "type (mr ! i) = ''sleep''" "small_whole (percentage (mr ! i))"
    using exact [OF that(2) one(1) one(3) one(2)] that(1)
    by (simp add: floored_risk_def risk_floor_def risk_reduction_def)
  have cases: "newPercentage (mr ! i) s x h
      = (if type (mr ! i) = ''fatigue''
         then max 5 (fl (fl (percentage (mr ! i) - fl (s * 15)) - fl (h * 8)))
         else if type (mr ! i) = ''hydration''
         then max 5 (fl (percentage (mr ! i) - fl (h * 25)))
         else if type (mr ! i) = ''sleep''
         then max 10 (fl (percentage (mr ! i) - fl (s * 20)))
         else max 8 (fl (fl (percentage (mr ! i) - fl (s * 10)) - fl (fl (x / 1000) * 3))))"
    using assms(2) by (auto simp: newPercentage_def four_categories_def)
  have out: "type (risks (simulateForecast mf mr s x h) ! i) = type (mr ! i)"
    "percentage (risks (simulateForecast mf mr s x h) ! i)
      = js_round (newPercentage (mr ! i) s x h)"
    "level (risks (simulateForecast mf mr s x h) ! i) = level_of (newPercentage (mr ! i) s x h)"
    using assms(1) by (simp_all add: simulated_risk)
  show ?thesis
  proof (intro conjI impI)
    show "type (risks (simulateForecast mf mr s x h) ! i) = type (mr ! i)"
      by (rule out)
    show "percentage (risks (simulateForecast mf mr s x h) ! i)
      = js_round (newPercentage (mr ! i) s x h)"
      by (rule out)
    show "level (risks (simulateForecast mf mr s x h) ! i)
      = level_of (newPercentage (mr ! i) s x h)"
      by (rule out)
    show "risk_floor (type (mr ! i)) \<le> newPercentage (mr ! i) s x h"
      by (rule newPercentage_floor [OF assms(2)])
    show "newPercentage (mr ! i) s x h
      = max 5 (fl (fl (percentage (mr ! i) - fl (s * 15)) - fl (h * 8)))"
      if "type (mr ! i) = ''fatigue''"
      using that by (simp add: cases)
    show "newPercentage (mr ! i) s x h = max 5 (fl (percentage (mr ! i) - fl (h * 25)))"
      if "type (mr ! i) = ''hydration''"
      using that by (simp add: cases)
    show "newPercentage (mr ! i) s x h = max 10 (fl (percentage (mr ! i) - fl (s * 20)))"
      if "type (mr ! i) = ''sleep''"
      using that by (simp add: cases)
    show "newPercentage (mr ! i) s x h
      = max 8 (fl (fl (percentage (mr ! i) - fl (s * 10)) - fl (fl (x / 1000) * 3)))"
      if "type (mr ! i) = ''stress''"
      using that by (simp add: cases)
    show "level (risks (simulateForecast mf mr s x h) ! i) = ''low''"
      if "newPercentage (mr ! i) s x h \<le> 25"
      using that by (simp add: out level_of_def)
    show "level (risks (simulateForecast mf mr s x h) ! i) = ''medium''"
      if "25 < newPercentage (mr ! i) s x h \<and> newPercentage (mr ! i) s x h \<le> 50"
      using that by (simp add: out level_of_def)
    show "level (risks (simulateForecast mf mr s x h) ! i) = ''high''"
      if "50 < newPercentage (mr ! i) s x h"
      using that by (simp add: out level_of_def)
    show "newPercentage (mr ! i) s x h = floored_risk (mr ! i) s x h"
      if "small_whole (percentage (mr ! i)) \<and> small_whole s \<and> small_whole (x / 1000)
        \<and> small_whole h"
      using that exact [of s x h] by blast
    show "percentage (risks (simulateForecast mf mr s x h) ! i) = floored_risk (mr ! i) s x h"
      if "small_whole (percentage (mr ! i)) \<and> small_whole s \<and> small_whole (x / 1000)
        \<and> small_whole h"
      using that exact [of s x h] by blast
    show "percentage (risks (simulateForecast mf mr 1 0 0) ! i)
      = max 10 (percentage (mr ! i) - 20)"
      if "type (mr ! i) = ''sleep'' \<and> small_whole (percentage (mr ! i))"
      using that sleep by blast
  qed
qed

theorem C8_witness:
  "type (risks_example ! 2) = ''sleep''
   \<and> percentage (risks_example ! 2) = 45
   \<and> percentage (risks (simulateForecast forecast_example risks_example 1 0 0) ! 2) = 25
   \<and> level (risks (simulateForecast forecast_example risks_example 1 0 0) ! 2) = ''low''
   \<and> floored_risk (risks_example ! 2) 1 0 0 = 25
   \<and> newPercentage (risks_example ! 2) 1 0 0 = 25"
proof -
  have a: "2 < length risks_example" "type (risks_example ! 2) \<in> set four_categories"
    "type (risks_example ! 2) = ''sleep''" "percentage (risks_example ! 2) = 45"
    by (simp_all add: risks_example_def four_categories_def)
  have f: "floored_risk (risks_example ! 2) 1 0 0 = 25"
    using a(3,4) by (simp add: floored_risk_def risk_floor_def risk_reduction_def)
  have w: "small_whole (percentage (risks_example ! 2)) \<and> small_whole 1
      \<and> small_whole (0 / 1000) \<and> small_whole 0"
    using a(4) by (simp add: small_whole_def whole_def)
  note c = C8_risk_recalculation [OF a(1,2), of forecast_example 1 0 0]
  from c w have n: "newPercentage (risks_example ! 2) 1 0 0 = floored_risk (risks_example ! 2) 1 0 0"
    and p: "percentage (risks (simulateForecast forecast_example risks_example 1 0 0) ! 2)
      = floored_risk (risks_example ! 2) 1 0 0"
    by blast+
  from c have "newPercentage (risks_example ! 2) 1 0 0 \<le> 25
      \<longrightarrow> level (risks (simulateForecast forecast_example risks_example 1 0 0) ! 2) = ''low''"
    by blast
  then have l: "level (risks (simulateForecast forecast_example risks_example 1 0 0) ! 2) = ''low''"
    unfolding n f by simp
  show ?thesis
    using a(3,4) n p l unfolding f by simp
qed

theorem C8_counterexample:
  "type (risk_fatigue 35) \<in> set four_categories
   \<and> floored_risk (risk_fatigue 35) (1 / 2) 0 0 = 55 / 2
   \<and> percentage (risks (simulateForecast forecast_example [risk_fatigue 35] (1 / 2) 0 0) ! 0)
       = 28
   \<and> type (risk_hydration 35) \<in> set four_categories
   \<and> floored_risk (risk_hydration 35) 0 0 (11 / 10) = 15 / 2
   \<and> 7 < floored_risk (risk_hydration 35) 0 0 double_1_1
   \<and> percentage (risks (simulateForecast forecast_example [risk_hydration 35] 0 0 double_1_1) ! 0)
       = 7
   \<and> percentage (risks (simulateForecast forecast_example [risk_fatigue 32] (fl (9 / 20)) 0 0) ! 0)
       = 25
   \<and> level (risks (simulateForecast forecast_example [risk_fatigue 32] (fl (9 / 20)) 0 0) ! 0)
       = ''medium''"
proof -
  have out: "percentage (risks (simulateForecast forecast_example [r] s x h) ! 0)
      = js_round (newPercentage r s x h)"
    "level (risks (simulateForecast forecast_example [r] s x h) ! 0)
      = level_of (newPercentage r s x h)" for r :: risk and s x h
    by (simp_all add: simulated_risk)
  have "type (risk_fatigue 35) \<in> set four_categories"
    "floored_risk (risk_fatigue 35) (1 / 2) 0 0 = 55 / 2"
    "js_round (newPercentage (risk_fatigue 35) (1 / 2) 0 0) = 28"
    "type (risk_hydration 35) \<in> set four_categories"
    "floored_risk (risk_hydration 35) 0 0 (11 / 10) = 15 / 2"
    "7 < floored_risk (risk_hydration 35) 0 0 double_1_1"
    "js_round (newPercentage (risk_hydration 35) 0 0 double_1_1) = 7"
    "js_round (newPercentage (risk_fatigue 32) (fl (9 / 20)) 0 0) = 25"
    "level_of (newPercentage (risk_fatigue 32) (fl (9 / 20)) 0 0) = ''medium''"
    by code_simp+
  then show ?thesis
    unfolding out by (intro conjI)
qed








end
